theory Spec2Isabelle
  imports Complex_Main "HOL-Library.AList" "HOL-Library.Sublist" "HOL-Library.Word"
begin

section \<open>Python values\<close>

text \<open>
  A Python \<open>str\<close> is modelled as the list of its characters (type \<open>string\<close>); \<open>len\<close>
  is \<open>length\<close> and \<open>s[:n]\<close> is \<open>take n s\<close>.  The few symbols outside Latin-1 that occur in
  the source's own literals are spelled by their UTF-8 bytes; no function below measures
  or slices such a literal.  A Python \<open>dict\<close> is an association list in insertion order:
  \<open>d.get(k, default)\<close> is \<open>map_of\<close> with a default, and a store to a key is
  \<open>AList.update\<close> (in place when the key exists, appended otherwise).  Numbers are carried
  by their exact value.  Logging and tracing spans are not modelled.
\<close>

datatype pyval =
    PNone
  | PBool bool
  | PInt int
  | PFloat rat
  | PStr string
  | PList "pyval list"
  | PDict "(string \<times> pyval) list"

type_synonym pydict = "(string \<times> pyval) list"

type_synonym byte = "8 word"

datatype error =
    AttributeError
  | TypeError
  | KeyError
  | ValueError
  | FileNotFoundError
  | BinasciiError

text \<open>Sequencing of computations that may raise.\<close>

definition ebind :: "error + 'a \<Rightarrow> ('a \<Rightarrow> error + 'b) \<Rightarrow> error + 'b" where
  "ebind m f = (case m of Inl e \<Rightarrow> Inl e | Inr x \<Rightarrow> f x)"

text \<open>\<open>x.get(key, default)\<close>: only a dict has the method.\<close>

fun py_get :: "pyval \<Rightarrow> string \<Rightarrow> pyval \<Rightarrow> error + pyval" where
  "py_get (PDict d) k dflt = Inr (case map_of d k of None \<Rightarrow> dflt | Some v \<Rightarrow> v)"
| "py_get _ k dflt = Inl AttributeError"

text \<open>Truth value of an object in a condition (\<open>if x:\<close>, \<open>bool(x)\<close>).\<close>

fun truthy :: "pyval \<Rightarrow> bool" where
  "truthy PNone = False"
| "truthy (PBool b) = b"
| "truthy (PInt i) = (i \<noteq> 0)"
| "truthy (PFloat f) = (f \<noteq> 0)"
| "truthy (PStr s) = (s \<noteq> [])"
| "truthy (PList xs) = (xs \<noteq> [])"
| "truthy (PDict d) = (d \<noteq> [])"

text \<open>\<open>str(n)\<close> for an integer.\<close>

fun str_of_nat :: "nat \<Rightarrow> string" where
  "str_of_nat n =
     (if n < 10 then [''0123456789'' ! n]
      else str_of_nat (n div 10) @ [''0123456789'' ! (n mod 10)])"

declare str_of_nat.simps [simp del]

definition str_of_int :: "int \<Rightarrow> string" where
  "str_of_int i = (if i < 0 then ''-'' @ str_of_nat (nat (- i)) else str_of_nat (nat i))"

text \<open>
  The parts of the Python runtime and standard library that the code calls and that are
  taken as given: \<open>json.dumps(payload, sort_keys=True, separators=(",", ":")).encode("utf-8")\<close>
  (which raises on a value that is not JSON-serialisable), \<open>hashlib.sha256(b).hexdigest()\<close>,
  \<open>str(x)\<close> and \<open>format(x, spec)\<close> for the values whose text depends on floating point,
  \<open>str.upper\<close>, and the floating-point operations \<open>-\<close>, \<open>/\<close>, \<open>*\<close> and \<open>round(x, n)\<close>.
\<close>

record py_runtime =
  json_dumps :: "pyval \<Rightarrow> error + string"
  sha256_hexdigest :: "string \<Rightarrow> string"
  py_str :: "pyval \<Rightarrow> string"
  py_format :: "string \<Rightarrow> pyval \<Rightarrow> error + string"
  str_upper :: "string \<Rightarrow> string"
  fsub :: "rat \<Rightarrow> rat \<Rightarrow> rat"
  fdiv :: "rat \<Rightarrow> rat \<Rightarrow> rat"
  fmul :: "rat \<Rightarrow> rat \<Rightarrow> rat"
  fround :: "rat \<Rightarrow> nat \<Rightarrow> rat"

text \<open>A replacement field \<open>{x}\<close> of an f-string: the text of a \<open>str\<close>, an \<open>int\<close>, a \<open>bool\<close>
  and \<open>None\<close> is fixed; floats and containers go through the runtime's \<open>str\<close>.\<close>

fun fstr :: "py_runtime \<Rightarrow> pyval \<Rightarrow> string" where
  "fstr rt (PStr s) = s"
| "fstr rt (PInt i) = str_of_int i"
| "fstr rt (PBool b) = (if b then ''True'' else ''False'')"
| "fstr rt PNone = ''None''"
| "fstr rt v = py_str rt v"

section \<open>Standard library: base64\<close>

text \<open>
  \<open>base64.b64encode\<close> and \<open>base64.b64decode(s)\<close> with its default \<open>validate=False\<close>, as
  CPython's \<open>binascii\<close> computes them.  The decoder first encodes a \<open>str\<close> argument as
  ASCII (a character above 127 raises \<open>ValueError\<close>), then runs over the characters with a
  position in the current group of four, the bits left over, and a count of padding
  characters: a character outside the alphabet is skipped, a complete padding ends the
  decoding (what follows is ignored), and input that stops inside a group raises
  \<open>binascii.Error\<close>.
\<close>

definition b64_alphabet :: string where
  "b64_alphabet = ''ABCDEFGHIJKLMNOPQRSTUVWXYZabcdefghijklmnopqrstuvwxyz0123456789+/''"

fun index_of :: "'a \<Rightarrow> 'a list \<Rightarrow> nat option" where
  "index_of x [] = None"
| "index_of x (y # ys) =
     (if x = y then Some 0 else (case index_of x ys of None \<Rightarrow> None | Some n \<Rightarrow> Some (Suc n)))"

definition b64_value :: "char \<Rightarrow> nat option" where
  "b64_value c = index_of c b64_alphabet"

fun b64_groups :: "nat list \<Rightarrow> string" where
  "b64_groups (a # b # c # rest) =
     [b64_alphabet ! (a div 4), b64_alphabet ! (a mod 4 * 16 + b div 16),
      b64_alphabet ! (b mod 16 * 4 + c div 64), b64_alphabet ! (c mod 64)] @ b64_groups rest"
| "b64_groups [a, b] =
     [b64_alphabet ! (a div 4), b64_alphabet ! (a mod 4 * 16 + b div 16),
      b64_alphabet ! (b mod 16 * 4), CHR ''='']"
| "b64_groups [a] =
     [b64_alphabet ! (a div 4), b64_alphabet ! (a mod 4 * 16), CHR ''='', CHR ''='']"
| "b64_groups [] = []"

definition b64encode :: "byte list \<Rightarrow> string" where
  "b64encode bs = b64_groups (map unat bs)"

fun a2b_base64 :: "string \<Rightarrow> nat \<Rightarrow> nat \<Rightarrow> nat \<Rightarrow> byte list \<Rightarrow> error + byte list" where
  "a2b_base64 [] quad_pos leftchar pads out =
     (if quad_pos \<noteq> 0 then Inl BinasciiError else Inr out)"
| "a2b_base64 (ch # rest) quad_pos leftchar pads out =
     (if ch = CHR ''='' then
        (if quad_pos \<ge> 2 then
           (if quad_pos + (pads + 1) \<ge> 4 then Inr out
            else a2b_base64 rest quad_pos leftchar (pads + 1) out)
         else a2b_base64 rest quad_pos leftchar pads out)
      else
        (case b64_value ch of
           None \<Rightarrow> a2b_base64 rest quad_pos leftchar pads out
         | Some v \<Rightarrow>
             (if quad_pos = 0 then a2b_base64 rest 1 v 0 out
              else if quad_pos = 1 then
                a2b_base64 rest 2 (v mod 16) 0 (out @ [of_nat (leftchar * 4 + v div 16)])
              else if quad_pos = 2 then
                a2b_base64 rest 3 (v mod 4) 0 (out @ [of_nat (leftchar * 16 + v div 4)])
              else a2b_base64 rest 0 0 0 (out @ [of_nat (leftchar * 64 + v)]))))"

definition b64decode :: "string \<Rightarrow> error + byte list" where
  "b64decode s =
     (if list_ex (\<lambda>c. (of_char c :: nat) > 127) s then Inl ValueError
      else a2b_base64 s 0 0 0 [])"

section \<open>nhi/signing.py\<close>

record DecisionTrace =
  agent_id :: string
  timestamp :: string
  decision :: pydict
  payload_hash :: string
  signature :: string

record CitationBlock =
  source_id :: string
  data_hash :: string
  cb_timestamp :: string
  snippet :: string

text \<open>An \<open>Ed25519PrivateKey\<close> is used through its method \<open>sign(data)\<close>, an
  \<open>Ed25519PublicKey\<close> through \<open>verify(signature, data)\<close>, which returns when the signature
  is valid (\<open>True\<close> here) and raises \<open>InvalidSignature\<close> otherwise (\<open>False\<close>).\<close>

type_synonym private_key = "string \<Rightarrow> byte list"
type_synonym public_key = "byte list \<Rightarrow> string \<Rightarrow> bool"

definition canonicalise :: "py_runtime \<Rightarrow> pydict \<Rightarrow> error + string" where
  "canonicalise rt payload = json_dumps rt (PDict payload)"

definition signable_of :: "DecisionTrace \<Rightarrow> pydict" where
  "signable_of trace =
     [(''agent_id'', PStr (agent_id trace)),
      (''timestamp'', PStr (timestamp trace)),
      (''decision'', PDict (decision trace))]"

text \<open>\<open>sign_decision_trace\<close>; the argument \<open>ts\<close> is the clock reading that the default
  factory of \<open>DecisionTrace.timestamp\<close> takes.\<close>

definition sign_decision_trace ::
  "py_runtime \<Rightarrow> string \<Rightarrow> string \<Rightarrow> pydict \<Rightarrow> private_key \<Rightarrow> error + DecisionTrace" where
  "sign_decision_trace rt ts agent decision' private_key =
     (let trace = \<lparr>agent_id = agent, timestamp = ts, decision = decision',
                   payload_hash = [], signature = []\<rparr>;
          signable = signable_of trace
      in ebind (canonicalise rt signable) (\<lambda>canonical.
           Inr (trace\<lparr>payload_hash := sha256_hexdigest rt canonical,
                      signature := b64encode (private_key canonical)\<rparr>)))"

text \<open>\<open>verify_decision_trace\<close>: the canonical payload is computed outside the \<open>try\<close>, so a
  trace that cannot be serialised raises; every exception of the decoding and of the
  signature check is caught and gives \<open>False\<close>.\<close>

definition verify_decision_trace ::
  "py_runtime \<Rightarrow> DecisionTrace \<Rightarrow> public_key \<Rightarrow> error + bool" where
  "verify_decision_trace rt trace public_key =
     (let signable = signable_of trace
      in ebind (canonicalise rt signable) (\<lambda>canonical.
           let expected_hash = sha256_hexdigest rt canonical
           in if expected_hash \<noteq> payload_hash trace then Inr False
              else (case b64decode (signature trace) of
                      Inl exc \<Rightarrow> Inr False
                    | Inr sig_bytes \<Rightarrow>
                        if public_key sig_bytes canonical then Inr True else Inr False)))"

text \<open>\<open>trace.model_dump()\<close>: the trace as a dict.\<close>

definition model_dump :: "DecisionTrace \<Rightarrow> pydict" where
  "model_dump trace =
     [(''agent_id'', PStr (agent_id trace)),
      (''timestamp'', PStr (timestamp trace)),
      (''decision'', PDict (decision trace)),
      (''payload_hash'', PStr (payload_hash trace)),
      (''signature'', PStr (signature trace))]"

text \<open>What a keypair is: the public key accepts every signature its private key makes.\<close>

definition ed25519_keypair :: "private_key \<Rightarrow> public_key \<Rightarrow> bool" where
  "ed25519_keypair sk pk = (\<forall>m. pk (sk m) m)"

section \<open>nhi/middleware.py\<close>

text \<open>The \<open>for c in citations\<close> loop of \<open>verify_citations_present\<close>: the first citation
  whose hash is empty or not 64 characters long returns \<open>False\<close>.\<close>

fun citations_loop :: "CitationBlock list \<Rightarrow> bool" where
  "citations_loop [] = True"
| "citations_loop (c # cs) =
     (if data_hash c = [] \<or> length (data_hash c) \<noteq> 64 then False else citations_loop cs)"

definition verify_citations_present :: "CitationBlock list \<Rightarrow> bool" where
  "verify_citations_present citations =
     (if citations = [] then False else citations_loop citations)"

text \<open>The spec's 64-hex invariant on a hash, in the spec's words: 64 characters, each a
  hexadecimal digit.\<close>

definition spec_hex_char :: "char \<Rightarrow> bool" where
  "spec_hex_char c = (c \<in> set ''0123456789abcdefABCDEF'')"

definition spec_hex64 :: "string \<Rightarrow> bool" where
  "spec_hex64 h = (length h = 64 \<and> list_all spec_hex_char h)"

section \<open>agents/state.py\<close>

datatype message = AIMessage (content: string) (name: string) | HumanMessage string

text \<open>\<open>EcoVerifyState\<close>.  The channels annotated with a reducer always hold a list; for
  the others \<open>None\<close> means that the key is not in the state dict, so that
  \<open>state.get(key, default)\<close> gives the default.  A field typed \<open>dict | None\<close> holds a
  \<open>pyval\<close>, which may be \<open>PNone\<close>.\<close>

record EcoVerifyState =
  messages :: "message list"
  telemetry_data :: "pyval option"
  anomalies :: "pydict list option"
  citations :: "CitationBlock list option"
  decision_traces :: "pydict list"
  compliance_report :: "pyval option"
  simulation_result :: "pyval option"
  jira_tickets :: "pydict list option"
  governor_approval :: "pyval option"
  settlements :: "pydict list"
  risk_scores :: "pydict list"
  fhir_observations :: "pydict list"
  edutech_hints :: "pydict list"
  user_intent :: "pyval option"
  current_phase :: "string option"
  error_log :: "string list"
  iteration_count :: "int option"
  ui_events :: "pydict list"

text \<open>The dict a node returns: one entry per key it sets, in the order of the source's
  dict literal.\<close>

datatype update =
    Messages "message list"
  | TelemetryData pyval
  | Anomalies "pydict list"
  | Citations "CitationBlock list"
  | DecisionTraces "pydict list"
  | ComplianceReport pyval
  | SimulationResult pyval
  | JiraTickets "pydict list"
  | GovernorApproval pyval
  | Settlements "pydict list"
  | RiskScores "pydict list"
  | FhirObservations "pydict list"
  | EdutechHints "pydict list"
  | UserIntent pyval
  | CurrentPhase string
  | ErrorLog "string list"
  | IterationCount int
  | UiEvents "pydict list"

text \<open>Modelled from the spec: the merge of a node's returned dict into the state, which
  the graph runtime performs and which is not under src/.  Spec 4.D: replace fields take
  the delta value verbatim; append fields concatenate the delta's list to the existing
  list preserving order; missing fields in the delta leave the state unchanged.  Which
  fields append is read from the reducers that \<open>EcoVerifyState\<close> declares
  (\<open>operator.add\<close>, and \<open>add_messages\<close> for \<open>messages\<close>).\<close>

fun apply_update :: "update \<Rightarrow> EcoVerifyState \<Rightarrow> EcoVerifyState" where
  "apply_update (Messages v) s = s\<lparr>messages := messages s @ v\<rparr>"
| "apply_update (TelemetryData v) s = s\<lparr>telemetry_data := Some v\<rparr>"
| "apply_update (Anomalies v) s = s\<lparr>anomalies := Some v\<rparr>"
| "apply_update (Citations v) s = s\<lparr>citations := Some v\<rparr>"
| "apply_update (DecisionTraces v) s = s\<lparr>decision_traces := decision_traces s @ v\<rparr>"
| "apply_update (ComplianceReport v) s = s\<lparr>compliance_report := Some v\<rparr>"
| "apply_update (SimulationResult v) s = s\<lparr>simulation_result := Some v\<rparr>"
| "apply_update (JiraTickets v) s = s\<lparr>jira_tickets := Some v\<rparr>"
| "apply_update (GovernorApproval v) s = s\<lparr>governor_approval := Some v\<rparr>"
| "apply_update (Settlements v) s = s\<lparr>settlements := settlements s @ v\<rparr>"
| "apply_update (RiskScores v) s = s\<lparr>risk_scores := risk_scores s @ v\<rparr>"
| "apply_update (FhirObservations v) s = s\<lparr>fhir_observations := fhir_observations s @ v\<rparr>"
| "apply_update (EdutechHints v) s = s\<lparr>edutech_hints := edutech_hints s @ v\<rparr>"
| "apply_update (UserIntent v) s = s\<lparr>user_intent := Some v\<rparr>"
| "apply_update (CurrentPhase v) s = s\<lparr>current_phase := Some v\<rparr>"
| "apply_update (ErrorLog v) s = s\<lparr>error_log := error_log s @ v\<rparr>"
| "apply_update (IterationCount v) s = s\<lparr>iteration_count := Some v\<rparr>"
| "apply_update (UiEvents v) s = s\<lparr>ui_events := ui_events s @ v\<rparr>"

fun merge :: "EcoVerifyState \<Rightarrow> update list \<Rightarrow> EcoVerifyState" where
  "merge s [] = s"
| "merge s (u # us) = merge (apply_update u s) us"

text \<open>\<open>state.get(key, default)\<close> for a key that may be missing.\<close>

definition get_or :: "'a option \<Rightarrow> 'a \<Rightarrow> 'a" where
  "get_or v dflt = (case v of None \<Rightarrow> dflt | Some x \<Rightarrow> x)"

section \<open>What the nodes reach outside themselves\<close>

text \<open>
  The clock, the key store of \<open>nhi/keys.py\<close> (a directory of PEM files) and the adapters
  (regulatory registry, telemetry, language model) are the environment of a node.
  \<open>now_iso\<close> is the clock reading at the start of the node and \<open>trace_timestamp\<close> the one
  taken when the node's \<open>DecisionTrace\<close> is constructed.
\<close>

record environment =
  now_iso :: string
  trace_timestamp :: string
  load_private_key :: "string \<Rightarrow> error + private_key"
  generate_agent_keypair :: "string \<Rightarrow> error + private_key"
  query_eu_ai_act :: "string \<Rightarrow> error + pyval"
  check_compliance_vector :: "string \<Rightarrow> pyval \<Rightarrow> error + pyval"

text \<open>The pattern \<open>try: pk = load_private_key(a) except FileNotFoundError: pk, _ =
  generate_agent_keypair(a)\<close> of every signing node.\<close>

definition agent_key :: "environment \<Rightarrow> string \<Rightarrow> error + private_key" where
  "agent_key env agent =
     (case load_private_key env agent of
        Inl FileNotFoundError \<Rightarrow> generate_agent_keypair env agent
      | Inl e \<Rightarrow> Inl e
      | Inr pk \<Rightarrow> Inr pk)"

section \<open>agents/edges.py\<close>

definition MAX_ITERATIONS :: int where
  "MAX_ITERATIONS = 5"

definition route_after_vanguard :: "EcoVerifyState \<Rightarrow> string" where
  "route_after_vanguard state =
     (let anomalies' = get_or (anomalies state) []
      in if anomalies' \<noteq> [] then ''jurist'' else ''__end__'')"

definition route_after_jurist :: "EcoVerifyState \<Rightarrow> error + string" where
  "route_after_jurist state =
     (let phase = get_or (current_phase state) [];
          iteration_count' = get_or (iteration_count state) 0
      in if phase = ''citation_failure'' then
           (if iteration_count' \<ge> MAX_ITERATIONS then Inr ''__end__'' else Inr ''vanguard'')
         else
           (let compliance = get_or (compliance_report state) (PDict [])
            in ebind (py_get compliance ''status'' (PStr ''unknown'')) (\<lambda>status.
                 if status = PStr ''non_compliant'' then Inr ''governor''
                 else Inr ''architect'')))"

definition route_after_architect :: "EcoVerifyState \<Rightarrow> string" where
  "route_after_architect state = ''governor''"

text \<open>The status of the compliance report of a state, for stating what the router
  does: the entry \<open>status\<close> of the report when the report is a dict.\<close>

definition spec_compliance_status :: "EcoVerifyState \<Rightarrow> pyval option" where
  "spec_compliance_status s =
     (case compliance_report s of Some (PDict r) \<Rightarrow> map_of r ''status'' | _ \<Rightarrow> None)"

section \<open>agents/nodes/jurist.py\<close>

text \<open>Symbols of the source's literals outside Latin-1, by their UTF-8 bytes.\<close>

definition WARNING_SIGN :: string where
  "WARNING_SIGN = [CHR 0xE2, CHR 0x9A, CHR 0xA0]"

definition EM_DASH :: string where
  "EM_DASH = [CHR 0xE2, CHR 0x80, CHR 0x94]"

text \<open>\<open>[a.get("section", "") for a in result.get("articles", [])[:n]]\<close>.\<close>

fun sections_of :: "pyval list \<Rightarrow> error + pyval list" where
  "sections_of [] = Inr []"
| "sections_of (a # as) =
     ebind (py_get a ''section'' (PStr [])) (\<lambda>sec.
       ebind (sections_of as) (\<lambda>rest. Inr (sec # rest)))"

definition article_sections :: "pyval \<Rightarrow> nat \<Rightarrow> error + pyval list" where
  "article_sections result n =
     ebind (py_get result ''articles'' (PList [])) (\<lambda>articles.
       case articles of
         PList xs \<Rightarrow> sections_of (take n xs)
       | PStr cs \<Rightarrow> (if take n cs = [] then Inr [] else Inl AttributeError)
       | _ \<Rightarrow> Inl TypeError)"

text \<open>One round of the loop \<open>for anomaly in anomalies\<close>: the finding appended.\<close>

definition jurist_finding ::
  "py_runtime \<Rightarrow> environment \<Rightarrow> pyval \<Rightarrow> pyval \<Rightarrow> pydict \<Rightarrow> error + pydict" where
  "jurist_finding rt env transparency_result oversight_result anomaly =
     (case map_of anomaly ''type'' of
        None \<Rightarrow> Inl KeyError
      | Some ty \<Rightarrow>
          (let action_desc =
                 ''Autonomous detection of '' @ fstr rt ty @ '' anomaly in building ''
                 @ fstr rt (get_or (map_of anomaly ''building_id'') (PStr ''unknown''))
                 @ '': '' @ fstr rt (get_or (map_of anomaly ''metric'') (PStr ''N/A''))
           in ebind (check_compliance_vector env action_desc
                       (get_or (map_of anomaly ''severity'') (PStr ''high''))) (\<lambda>compliance_check.
                ebind (article_sections transparency_result 3) (\<lambda>t_secs.
                  ebind (article_sections oversight_result 2) (\<lambda>o_secs.
                    Inr [(''anomaly'', PDict anomaly),
                         (''compliance'', compliance_check),
                         (''articles_referenced'', PList (t_secs @ o_secs))])))))"

fun jurist_findings ::
  "py_runtime \<Rightarrow> environment \<Rightarrow> pyval \<Rightarrow> pyval \<Rightarrow> pydict list \<Rightarrow> pydict list \<Rightarrow> error + pydict list" where
  "jurist_findings rt env tr ov findings [] = Inr findings"
| "jurist_findings rt env tr ov findings (anomaly # rest) =
     ebind (jurist_finding rt env tr ov anomaly) (\<lambda>f.
       jurist_findings rt env tr ov (findings @ [f]) rest)"

text \<open>\<open>all(f["compliance"].get("compliant", False) for f in findings)\<close> and
  \<open>any(f["compliance"].get("requires_human_oversight", False) for f in findings)\<close>, which
  stop at the first finding that decides them.\<close>

fun all_compliant_of :: "pydict list \<Rightarrow> error + bool" where
  "all_compliant_of [] = Inr True"
| "all_compliant_of (f # fs) =
     (case map_of f ''compliance'' of
        None \<Rightarrow> Inl KeyError
      | Some c \<Rightarrow>
          ebind (py_get c ''compliant'' (PBool False)) (\<lambda>v.
            if truthy v then all_compliant_of fs else Inr False))"

fun requires_hitl_of :: "pydict list \<Rightarrow> error + bool" where
  "requires_hitl_of [] = Inr False"
| "requires_hitl_of (f # fs) =
     (case map_of f ''compliance'' of
        None \<Rightarrow> Inl KeyError
      | Some c \<Rightarrow>
          ebind (py_get c ''requires_human_oversight'' (PBool False)) (\<lambda>v.
            if truthy v then Inr True else requires_hitl_of fs))"

definition jurist_reasoning :: string where
  "jurist_reasoning =
     ''All detected anomalies fall within high-risk AI system classification '' @
     ''under EU AI Act Articles 6, 9, 13, 14. Autonomous response actions require '' @
     ''human oversight (Article 14) before execution. Transparency obligations '' @
     ''(Article 13) satisfied through decision trace logging.''"

definition jurist_node :: "py_runtime \<Rightarrow> environment \<Rightarrow> EcoVerifyState \<Rightarrow> error + update list" where
  "jurist_node rt env state =
     (let now = now_iso env;
          citations' = get_or (citations state) []
      in if \<not> verify_citations_present citations' then
           Inr [CurrentPhase ''citation_failure'',
                ErrorLog [''JURIST: Cite-Before-Act violation '' @ EM_DASH
                          @ '' no valid citations from VANGUARD.''],
                UiEvents [[(''type'', PStr ''neural_feed''),
                           (''agent'', PStr ''JURIST''),
                           (''message'', PStr (WARNING_SIGN @ '' Citation verification FAILED ''
                              @ EM_DASH @ '' routing back to VANGUARD for self-correction.'')),
                           (''severity'', PStr ''high''),
                           (''timestamp'', PStr now)]],
                ComplianceReport PNone,
                Messages [AIMessage
                  ''[JURIST] Citation verification failed. Requesting VANGUARD re-scan with proper data citations.''
                  ''jurist'']]
         else
           (let anomalies' = get_or (anomalies state) []
            in if anomalies' = [] then
                 Inr [CurrentPhase ''jurist_complete'',
                      ComplianceReport (PDict
                        [(''status'', PStr ''compliant''),
                         (''anomalies_evaluated'', PInt 0),
                         (''findings'', PList []),
                         (''timestamp'', PStr now)]),
                      UiEvents [[(''type'', PStr ''neural_feed''),
                                 (''agent'', PStr ''JURIST''),
                                 (''message'', PStr (''No anomalies to evaluate '' @ EM_DASH
                                    @ '' system compliant by default.'')),
                                 (''severity'', PStr ''low''),
                                 (''timestamp'', PStr now)]],
                      Messages [AIMessage
                        ''[JURIST] No anomalies to evaluate. System is compliant.'' ''jurist'']]
               else
                 ebind (query_eu_ai_act env ''transparency'') (\<lambda>transparency_result.
                 ebind (query_eu_ai_act env ''human oversight'') (\<lambda>oversight_result.
                 ebind (jurist_findings rt env transparency_result oversight_result [] anomalies')
                   (\<lambda>findings.
                 ebind (all_compliant_of findings) (\<lambda>all_compliant.
                 ebind (requires_hitl_of findings) (\<lambda>requires_hitl.
                 let status = (if all_compliant then ''compliant'' else ''non_compliant'');
                     n = str_of_nat (length anomalies');
                     oversight = (if requires_hitl then ''required'' else ''not required'');
                     compliance_report' =
                       [(''status'', PStr status),
                        (''requires_human_oversight'', PBool requires_hitl),
                        (''anomalies_evaluated'', PInt (int (length anomalies'))),
                        (''findings'', PList (map PDict findings)),
                        (''reasoning'', PStr jurist_reasoning),
                        (''timestamp'', PStr now)]
                 in ebind (agent_key env ''jurist'') (\<lambda>pk.
                    ebind (sign_decision_trace rt (trace_timestamp env) ''jurist''
                             [(''action'', PStr ''compliance_evaluation''),
                              (''status'', PStr status),
                              (''anomalies_evaluated'', PInt (int (length anomalies'))),
                              (''requires_hitl'', PBool requires_hitl)]
                             pk) (\<lambda>trace.
                    Inr [CurrentPhase ''jurist_complete'',
                         ComplianceReport (PDict compliance_report'),
                         DecisionTraces [model_dump trace],
                         UiEvents
                           [[(''type'', PStr ''neural_feed''),
                             (''agent'', PStr ''JURIST''),
                             (''message'', PStr (''Verified '' @ n
                                @ '' anomalie(s) against EU AI Act '' @ EM_DASH @ '' ''
                                @ (if all_compliant then ''COMPLIANT'' else ''NON-COMPLIANT'')
                                @ ''. Human oversight '' @ oversight @ ''.'')),
                             (''severity'', PStr (if all_compliant then ''medium'' else ''high'')),
                             (''timestamp'', PStr now)],
                            [(''type'', PStr ''neural_feed''),
                             (''agent'', PStr ''JURIST''),
                             (''message'', PStr
                                ''Articles referenced: 6 (Classification), 9 (Risk Mgmt), 13 (Transparency), 14 (Human Oversight)''),
                             (''severity'', PStr ''low''),
                             (''timestamp'', PStr now)]],
                         Messages [AIMessage
                           (''[JURIST] Compliance evaluation complete: '' @ status
                            @ ''. Human oversight: '' @ oversight
                            @ ''. Evaluated '' @ n
                            @ '' anomalie(s) against EU AI Act Articles 6, 9, 13, 14.'')
                           ''jurist'']])))))))))"

section \<open>agents/nodes/governor.py\<close>

definition HOURGLASS :: string where
  "HOURGLASS = [CHR 0xE2, CHR 0x8F, CHR 0xB3]"

definition ELLIPSIS :: string where
  "ELLIPSIS = [CHR 0xE2, CHR 0x80, CHR 0xA6]"

definition CHECK_MARK :: string where
  "CHECK_MARK = [CHR 0xE2, CHR 0x9C, CHR 0x85]"

definition CROSS_MARK :: string where
  "CROSS_MARK = [CHR 0xE2, CHR 0x9D, CHR 0x8C]"

definition TIMES_SIGN :: string where
  "TIMES_SIGN = [CHR 0xD7]"

definition SUBSCRIPT_TWO :: string where
  "SUBSCRIPT_TWO = [CHR 0xE2, CHR 0x82, CHR 0x82]"

text \<open>\<open>Command(goto=..., update=...)\<close>, and what a run of the node ends in: the
  \<open>interrupt\<close> that suspends it with a payload, or the returned command.\<close>

record command =
  goto :: string
  update :: "update list"

datatype node_result = Interrupted pydict | Returned command

text \<open>The two lines that read the human response.\<close>

definition human_approved :: "pyval \<Rightarrow> pyval" where
  "human_approved human_response =
     (case human_response of
        PDict r \<Rightarrow> get_or (map_of r ''approved'') (PBool False)
      | _ \<Rightarrow> PBool (truthy human_response))"

definition human_roi_adjustment :: "pyval \<Rightarrow> pyval" where
  "human_roi_adjustment human_response =
     (case human_response of
        PDict r \<Rightarrow> get_or (map_of r ''roi_adjustment'') (PFloat 1)
      | _ \<Rightarrow> PFloat 1)"

text \<open>\<open>governor_node\<close>.  The argument \<open>resume\<close> is what \<open>interrupt\<close> does: with \<open>None\<close> the
  thread has no human response yet and the node is suspended with the payload; with
  \<open>Some human_response\<close> the node, run again from its start, gets the response as the value
  of \<open>interrupt\<close>.  The text of \<open>action_summary\<close> is evaluated left to right, so the first
  \<open>simulation.get\<close> raises when \<open>simulation\<close> is not a dict, before \<open>compliance.get\<close> can.\<close>

definition governor_node ::
  "py_runtime \<Rightarrow> environment \<Rightarrow> EcoVerifyState \<Rightarrow> pyval option \<Rightarrow> error + node_result" where
  "governor_node rt env state resume =
     (let now = now_iso env;
          simulation = get_or (simulation_result state) (PDict []);
          anomalies' = get_or (anomalies state) [];
          compliance = get_or (compliance_report state) (PDict []);
          jira_tickets' = get_or (jira_tickets state) []
      in case simulation of
           PDict sim \<Rightarrow>
             ebind (py_format rt '',.2f'' (get_or (map_of sim ''monthly_savings_usd'') (PInt 0)))
               (\<lambda>savings_text.
             ebind (py_format rt ''.1f'' (get_or (map_of sim ''co2_tons_saved_annual'') (PInt 0)))
               (\<lambda>co2_text.
             ebind (py_get compliance ''status'' (PStr ''unknown'')) (\<lambda>status.
             let action_summary =
                   ''Approve maintenance action for '' @ str_of_nat (length anomalies')
                   @ '' anomalie(s). Estimated monthly saving: $'' @ savings_text
                   @ ''. CO'' @ SUBSCRIPT_TWO @ '' reduction: '' @ co2_text @ '' tons/yr (''
                   @ fstr rt (get_or (map_of sim ''env_reduction_pct'') (PInt 0))
                   @ ''%). Compliance status: '' @ fstr rt status
                   @ ''. Jira tickets to submit: '' @ str_of_nat (length jira_tickets') @ ''.'';
                 ui_pre =
                   [PDict [(''type'', PStr ''governor_panel''),
                           (''action_summary'', PStr action_summary),
                           (''estimated_roi'', get_or (map_of sim ''monthly_savings_usd'') (PInt 0)),
                           (''npv_3yr'', get_or (map_of sim ''npv_3yr_usd'') (PInt 0)),
                           (''payback_months'', get_or (map_of sim ''payback_months'') (PInt 0)),
                           (''co2_tons_saved_annual'',
                              get_or (map_of sim ''co2_tons_saved_annual'') (PInt 0)),
                           (''env_reduction_pct'', get_or (map_of sim ''env_reduction_pct'') (PInt 0)),
                           (''campus_buildings'', get_or (map_of sim ''campus_buildings'') (PInt 1)),
                           (''requires_approval'', PBool True),
                           (''timestamp'', PStr now)],
                    PDict [(''type'', PStr ''neural_feed''),
                           (''agent'', PStr ''GOVERNOR''),
                           (''message'', PStr (HOURGLASS
                              @ '' Awaiting human approval for state-mutating action'' @ ELLIPSIS)),
                           (''severity'', PStr ''medium''),
                           (''timestamp'', PStr now)]]
             in case resume of
                  None \<Rightarrow>
                    Inr (Interrupted
                      [(''action_summary'', PStr action_summary),
                       (''estimated_roi'', get_or (map_of sim ''monthly_savings_usd'') (PInt 0)),
                       (''requires_approval'', PBool True),
                       (''ui_events'', PList ui_pre)])
                | Some human_response \<Rightarrow>
                    (let approved = human_approved human_response;
                         roi_adjustment = human_roi_adjustment human_response
                     in ebind (agent_key env ''governor'') (\<lambda>pk.
                        ebind (sign_decision_trace rt (trace_timestamp env) ''governor''
                                 [(''action'', PStr ''human_approval''),
                                  (''approved'', approved),
                                  (''roi_adjustment'', roi_adjustment)]
                                 pk) (\<lambda>trace.
                        if truthy approved then
                          Inr (Returned
                            \<lparr>goto = ''finalize'',
                             update =
                               [GovernorApproval (PBool True),
                                CurrentPhase ''governor_approved'',
                                DecisionTraces [model_dump trace],
                                UiEvents [[(''type'', PStr ''neural_feed''),
                                           (''agent'', PStr ''GOVERNOR''),
                                           (''message'', PStr (CHECK_MARK
                                              @ '' Action APPROVED by human operator.'')),
                                           (''severity'', PStr ''low''),
                                           (''timestamp'', PStr now)]],
                                Messages [AIMessage
                                  ''[GOVERNOR] Human operator approved the action. Proceeding to finalisation.''
                                  ''governor'']]\<rparr>)
                        else
                          ebind (py_format rt ''.2f'' roi_adjustment) (\<lambda>roi_text.
                          Inr (Returned
                            \<lparr>goto = ''architect'',
                             update =
                               [GovernorApproval (PBool False),
                                CurrentPhase ''governor_rejected'',
                                DecisionTraces [model_dump trace],
                                SimulationResult
                                  (PDict (AList.update ''roi_adjustment'' roi_adjustment sim)),
                                UiEvents [[(''type'', PStr ''neural_feed''),
                                           (''agent'', PStr ''GOVERNOR''),
                                           (''message'', PStr (CROSS_MARK
                                              @ '' Action REJECTED. Re-simulating with ROI adjustment ''
                                              @ TIMES_SIGN @ roi_text @ ''.'')),
                                           (''severity'', PStr ''medium''),
                                           (''timestamp'', PStr now)]],
                                Messages [AIMessage
                                  (''[GOVERNOR] Action rejected. Re-routing to ARCHITECT with ROI adjustment ''
                                   @ fstr rt roi_adjustment @ ''.'')
                                  ''governor'']]\<rparr>))))))))
         | _ \<Rightarrow> Inl AttributeError)"

section \<open>agents/nodes/vanguard.py\<close>

text \<open>The \<open>summary\<close> of a telemetry reading as \<open>mcp/tools/bms.py\<close> returns it: floats rounded
  to two decimals and an integer count.\<close>

record energy_summary =
  avg_kwh :: rat
  peak_kwh :: rat
  energy_anomaly_count :: int
  total_kwh :: rat
  energy_hours_sampled :: int

record water_summary =
  avg_gallons :: rat
  peak_gallons :: rat
  water_anomaly_count :: int
  total_gallons :: rat
  water_hours_sampled :: int

text \<open>\<open>round(((peak - avg) / max(avg, 1)) * 100, 1)\<close>, in the runtime's floating-point
  arithmetic.\<close>

definition pct_above :: "py_runtime \<Rightarrow> rat \<Rightarrow> rat \<Rightarrow> rat" where
  "pct_above rt peak avg = fround rt (fmul rt (fdiv rt (fsub rt peak avg) (max avg 1)) 100) 1"

text \<open>Section 3 of \<open>vanguard_node\<close> (``Detect anomalies''): the list \<open>anomalies\<close> built from the
  two summaries, which the node returns under the key \<open>anomalies\<close>.\<close>

definition vanguard_anomalies ::
  "py_runtime \<Rightarrow> string \<Rightarrow> string \<Rightarrow> energy_summary \<Rightarrow> water_summary \<Rightarrow> pydict list" where
  "vanguard_anomalies rt building_id now e_summary w_summary =
     (let anomalies0 = [];
          anomalies1 =
            (if energy_anomaly_count e_summary > 0 then
               (let pct = pct_above rt (peak_kwh e_summary) (avg_kwh e_summary)
                in anomalies0 @
                   [[(''type'', PStr ''energy_spike''),
                     (''building_id'', PStr building_id),
                     (''severity'', PStr (if pct > 20 then ''high'' else ''medium'')),
                     (''metric'', PStr (''+'' @ fstr rt (PFloat pct) @ ''% above average'')),
                     (''peak_kwh'', PFloat (peak_kwh e_summary)),
                     (''avg_kwh'', PFloat (avg_kwh e_summary)),
                     (''anomaly_count'', PInt (energy_anomaly_count e_summary)),
                     (''detected_at'', PStr now)]])
             else anomalies0);
          anomalies2 =
            (if water_anomaly_count w_summary > 0 then
               (let pct = pct_above rt (peak_gallons w_summary) (avg_gallons w_summary)
                in anomalies1 @
                   [[(''type'', PStr ''water_spike''),
                     (''building_id'', PStr building_id),
                     (''severity'', PStr (if pct > 25 then ''high'' else ''medium'')),
                     (''metric'', PStr (''+'' @ fstr rt (PFloat pct) @ ''% above average'')),
                     (''peak_gallons'', PFloat (peak_gallons w_summary)),
                     (''avg_gallons'', PFloat (avg_gallons w_summary)),
                     (''anomaly_count'', PInt (water_anomaly_count w_summary)),
                     (''detected_at'', PStr now)]])
             else anomalies1)
      in anomalies2)"

text \<open>The anomaly of a given type in a list of anomalies, if there is one.\<close>

definition anomaly_of_type :: "string \<Rightarrow> pydict list \<Rightarrow> pydict option" where
  "anomaly_of_type ty anomalies' = find (\<lambda>a. map_of a ''type'' = Some (PStr ty)) anomalies'"

section \<open>agents/nodes/finalize.py: the proof graph\<close>

definition ARROWS_SYMBOL :: string where
  "ARROWS_SYMBOL = [CHR 0xF0, CHR 0x9F, CHR 0x94, CHR 0x84]"

definition BACKSLASH_N :: string where
  "BACKSLASH_N = [CHR 0x5C, CHR ''n'']"

text \<open>\<open>"\n".join(lines)\<close>.\<close>

fun join_lines :: "string list \<Rightarrow> string" where
  "join_lines [] = []"
| "join_lines [l] = l"
| "join_lines (l # ls) = l @ [CHR 0x0A] @ join_lines ls"

text \<open>\<open>agent = trace.get("agent_id", f"agent_{i}")\<close> and \<open>node_id = f"{agent}_{i}"\<close>, computed
  alike in both loops.\<close>

definition trace_agent :: "nat \<Rightarrow> pydict \<Rightarrow> pyval" where
  "trace_agent i trace = get_or (map_of trace ''agent_id'') (PStr (''agent_'' @ str_of_nat i))"

definition trace_node_id :: "py_runtime \<Rightarrow> nat \<Rightarrow> pydict \<Rightarrow> string" where
  "trace_node_id rt i trace = fstr rt (trace_agent i trace) @ ''_'' @ str_of_nat i"

text \<open>The pair \<open>shape_open, shape_close\<close>.\<close>

definition shape_of :: "pyval \<Rightarrow> string \<times> string" where
  "shape_of agent =
     (if agent = PStr ''governor'' then (''{'', ''}'')
      else if agent = PStr ''vanguard'' then (''(['', ''])'')
      else (''['', '']''))"

text \<open>The text \<open>extra\<close> after the label.\<close>

definition mermaid_extra :: "py_runtime \<Rightarrow> pydict \<Rightarrow> error + string" where
  "mermaid_extra rt decision' =
     (case map_of decision' ''monthly_savings'' of
        Some v \<Rightarrow> ebind (py_format rt '',.0f'' v) (\<lambda>t. Inr (BACKSLASH_N @ ''$'' @ t @ ''/mo''))
      | None \<Rightarrow>
          (case map_of decision' ''anomalies_found'' of
             Some v \<Rightarrow> Inr (BACKSLASH_N @ fstr rt v @ '' anomalie(s)'')
           | None \<Rightarrow>
               (case map_of decision' ''status'' of
                  Some v \<Rightarrow> Inr (BACKSLASH_N @ fstr rt v)
                | None \<Rightarrow>
                    (case map_of decision' ''approved'' of
                       Some v \<Rightarrow>
                         Inr (BACKSLASH_N @ (if truthy v then CHECK_MARK @ '' Approved''
                                             else CROSS_MARK @ '' Rejected''))
                     | None \<Rightarrow> Inr []))))"

text \<open>The three kinds of line of the chain: a node, the edge into a node, and the edge
  into END.\<close>

definition node_text :: "string \<Rightarrow> string \<times> string \<Rightarrow> string \<Rightarrow> string" where
  \<open>node_text node_id shape body = ''    '' @ node_id @ fst shape @ ''"'' @ body @ ''"'' @ snd shape\<close>

definition edge_text :: "string \<Rightarrow> string \<Rightarrow> string \<Rightarrow> string" where
  \<open>edge_text prev_node sig_short node_id =
     ''    '' @ prev_node @ '' -->|"sig:'' @ sig_short @ ''"| '' @ node_id\<close>

definition end_text :: "string \<Rightarrow> string" where
  \<open>end_text prev_node = ''    '' @ prev_node @ '' --> END(("'' @ CHECK_MARK @ '' Complete"))''\<close>

definition START_NODE :: string where
  \<open>START_NODE = ''    START(("'' @ ARROWS_SYMBOL @ '' Start"))''\<close>

text \<open>\<open>trace.get("payload_hash", "")[:8]\<close> as the f-string prints it: a \<open>str\<close> is sliced, a
  list is sliced and printed as a list, anything else cannot be sliced.\<close>

definition sig_short_of :: "py_runtime \<Rightarrow> pydict \<Rightarrow> error + string" where
  "sig_short_of rt trace =
     (case get_or (map_of trace ''payload_hash'') (PStr []) of
        PStr h \<Rightarrow> Inr (take 8 h)
      | PList xs \<Rightarrow> Inr (fstr rt (PList (take 8 xs)))
      | _ \<Rightarrow> Inl TypeError)"

text \<open>One round of the first loop: the two lines appended and the new \<open>prev_node\<close>.\<close>

definition mermaid_round ::
  "py_runtime \<Rightarrow> nat \<Rightarrow> string \<Rightarrow> pydict \<Rightarrow> error + (string list \<times> string)" where
  "mermaid_round rt i prev_node trace =
     (let agent = trace_agent i trace;
          decision' = get_or (map_of trace ''decision'') (PDict [])
      in ebind (py_get decision' ''action'' (PStr ''unknown'')) (\<lambda>action.
         case decision' of
           PDict dd \<Rightarrow>
             (let node_id = trace_node_id rt i trace
              in ebind (case agent of PStr a \<Rightarrow> Inr (str_upper rt a) | _ \<Rightarrow> Inl AttributeError)
                   (\<lambda>upper.
                 let label = upper @ BACKSLASH_N @ fstr rt action
                 in ebind (mermaid_extra rt dd) (\<lambda>extra.
                    ebind (sig_short_of rt trace) (\<lambda>sig_short.
                      Inr ([node_text node_id (shape_of agent) (label @ extra),
                            edge_text prev_node sig_short node_id],
                           node_id)))))
         | _ \<Rightarrow> Inl AttributeError))"

fun mermaid_loop ::
  "py_runtime \<Rightarrow> nat \<Rightarrow> string list \<Rightarrow> string \<Rightarrow> pydict list \<Rightarrow> error + (string list \<times> string)" where
  "mermaid_loop rt i lines prev_node [] = Inr (lines, prev_node)"
| "mermaid_loop rt i lines prev_node (trace # rest) =
     ebind (mermaid_round rt i prev_node trace) (\<lambda>(new_lines, node_id).
       mermaid_loop rt (Suc i) (lines @ new_lines) node_id rest)"

text \<open>The second loop: one \<open>class\<close> line for each trace of a known agent.\<close>

fun mermaid_classes :: "py_runtime \<Rightarrow> nat \<Rightarrow> string list \<Rightarrow> pydict list \<Rightarrow> string list" where
  "mermaid_classes rt i lines [] = lines"
| "mermaid_classes rt i lines (trace # rest) =
     (let agent = trace_agent i trace;
          node_id = trace_node_id rt i trace
      in mermaid_classes rt (Suc i)
           (if agent \<in> set [PStr ''vanguard'', PStr ''jurist'', PStr ''architect'', PStr ''governor'']
            then lines @ [''    class '' @ node_id @ '' '' @ fstr rt agent]
            else lines)
           rest)"

text \<open>The list \<open>lines\<close> when \<open>_build_mermaid_graph\<close> returns, and the function itself.  The
  second argument, \<open>anomalies\<close>, is not used by the body.\<close>

definition mermaid_lines :: "py_runtime \<Rightarrow> pydict list \<Rightarrow> error + string list" where
  "mermaid_lines rt decision_traces' =
     (let lines = [''graph TD'', START_NODE]
      in ebind (mermaid_loop rt 0 lines ''START'' decision_traces') (\<lambda>(lines1, prev_node).
         let lines2 = lines1 @ [end_text prev_node];
             lines3 = lines2 @ [[],
               ''    classDef vanguard fill:#1e40af,stroke:#3b82f6,color:#fff'',
               ''    classDef jurist fill:#6b21a8,stroke:#a855f7,color:#fff'',
               ''    classDef architect fill:#065f46,stroke:#10b981,color:#fff'',
               ''    classDef governor fill:#92400e,stroke:#f59e0b,color:#fff'']
         in Inr (mermaid_classes rt 0 lines3 decision_traces')))"

definition build_mermaid_graph :: "py_runtime \<Rightarrow> pydict list \<Rightarrow> pydict list \<Rightarrow> error + string" where
  "build_mermaid_graph rt decision_traces' anomalies' =
     ebind (mermaid_lines rt decision_traces') (\<lambda>lines. Inr (join_lines lines))"

text \<open>A trace dict typed as \<open>DecisionTrace.model_dump()\<close> types it, any key possibly
  missing: \<open>agent_id\<close> and \<open>payload_hash\<close> are \<open>str\<close>, \<open>decision\<close> is a dict, and a
  \<open>monthly_savings\<close> in it is a number that \<open>format\<close> accepts.\<close>

definition dumped_trace :: "py_runtime \<Rightarrow> pydict \<Rightarrow> bool" where
  "dumped_trace rt trace =
     ((case map_of trace ''agent_id'' of None \<Rightarrow> True | Some (PStr a) \<Rightarrow> True | Some _ \<Rightarrow> False)
      \<and> (case map_of trace ''decision'' of
            None \<Rightarrow> True
          | Some (PDict dd) \<Rightarrow>
              (case map_of dd ''monthly_savings'' of
                 None \<Rightarrow> True
               | Some v \<Rightarrow> (case py_format rt '',.0f'' v of Inr t \<Rightarrow> True | Inl e \<Rightarrow> False))
          | Some _ \<Rightarrow> False)
      \<and> (case map_of trace ''payload_hash'' of None \<Rightarrow> True | Some (PStr h) \<Rightarrow> True | Some _ \<Rightarrow> False))"

text \<open>The payload hash of such a trace, and the node an edge starts from: START for the
  first trace, the node of the trace before otherwise.\<close>

definition trace_hash :: "pydict \<Rightarrow> string" where
  "trace_hash trace = (case map_of trace ''payload_hash'' of Some (PStr h) \<Rightarrow> h | _ \<Rightarrow> [])"

definition chain_prev :: "py_runtime \<Rightarrow> pydict list \<Rightarrow> nat \<Rightarrow> string" where
  "chain_prev rt traces k =
     (if k = 0 then ''START'' else trace_node_id rt (k - 1) (traces ! (k - 1)))"

text \<open>For reading the diagram as the spec words it: a line draws an edge when it contains
  an arrow, and the edge carries a signature label when the arrow is followed by it.\<close>

fun spec_contains :: "string \<Rightarrow> string \<Rightarrow> bool" where
  "spec_contains p [] = (p = [])"
| "spec_contains p (c # cs) = (prefix p (c # cs) \<or> spec_contains p cs)"

definition spec_is_edge :: "string \<Rightarrow> bool" where
  \<open>spec_is_edge l = spec_contains ''-->'' l\<close>

definition spec_has_sig_label :: "string \<Rightarrow> bool" where
  \<open>spec_has_sig_label l = spec_contains ''-->|"sig:'' l\<close>

section \<open>Example values\<close>

text \<open>A small runtime and keypair on which the functions can be evaluated: the serialiser
  joins the agent, the timestamp and the decision's keys, the hash is the identity, a
  signature is the length of the message, and \<open>upper\<close> maps the ASCII letters.\<close>

definition example_dumps :: "pyval \<Rightarrow> error + string" where
  "example_dumps v =
     (case v of
        PDict [(k1, PStr a), (k2, PStr ts), (k3, PDict d)] \<Rightarrow>
          Inr (a @ '','' @ ts @ '','' @ concat (map fst d))
      | _ \<Rightarrow> Inl TypeError)"

definition example_upper :: "string \<Rightarrow> string" where
  "example_upper s =
     map (\<lambda>c. case map_of (zip ''abcdefghijklmnopqrstuvwxyz'' ''ABCDEFGHIJKLMNOPQRSTUVWXYZ'') c of
                 None \<Rightarrow> c | Some u \<Rightarrow> u) s"

definition example_runtime :: py_runtime where
  "example_runtime =
     \<lparr>json_dumps = example_dumps,
      sha256_hexdigest = (\<lambda>b. b),
      py_str = (\<lambda>v. ''?''),
      py_format = (\<lambda>spec v. Inr ''0''),
      str_upper = example_upper,
      fsub = (\<lambda>x y. x - y),
      fdiv = (\<lambda>x y. x / y),
      fmul = (\<lambda>x y. x * y),
      fround = (\<lambda>x n. x)\<rparr>"

definition example_private_key :: private_key where
  "example_private_key m = [of_nat (length m)]"

definition example_public_key :: public_key where
  "example_public_key sg m = (sg = [of_nat (length m)])"







text \<open>The initial state of \<open>api/routes.py\<close>.\<close>

definition initial_state :: EcoVerifyState where
  "initial_state =
     \<lparr>messages = [], telemetry_data = Some PNone, anomalies = Some [], citations = Some [],
      decision_traces = [], compliance_report = Some PNone, simulation_result = Some PNone,
      jira_tickets = Some [], governor_approval = Some PNone, settlements = [],
      risk_scores = [], fhir_observations = [], edutech_hints = [], user_intent = Some PNone,
      current_phase = Some ''starting'', error_log = [], iteration_count = Some 0,
      ui_events = []\<rparr>"

text \<open>An environment whose key store is empty (keys are generated on demand) and whose
  registry judges as \<open>check_compliance_vector\<close> does: non-compliant only at risk level
  \<open>unacceptable\<close>.\<close>

definition example_environment :: environment where
  "example_environment =
     \<lparr>now_iso = ''2026-01-01T00:00:00+00:00'',
      trace_timestamp = ''2026-01-01T00:00:01+00:00'',
      load_private_key = (\<lambda>a. Inl FileNotFoundError),
      generate_agent_keypair = (\<lambda>a. Inr example_private_key),
      query_eu_ai_act = (\<lambda>k. Inr (PDict [(''articles'', PList [PDict [(''section'', PStr ''Article 13'')]])])),
      check_compliance_vector = (\<lambda>desc risk.
         Inr (PDict [(''compliant'', PBool (risk \<noteq> PStr ''unacceptable'')),
                     (''requires_human_oversight'', PBool (risk = PStr ''high''))]))\<rparr>"

definition example_citation :: CitationBlock where
  "example_citation =
     \<lparr>source_id = ''bms:energy:HQ-01'', data_hash = replicate 64 (CHR ''a''),
      cb_timestamp = ''2026-01-01T00:00:00+00:00'', snippet = []\<rparr>"

definition example_anomaly :: pydict where
  "example_anomaly =
     [(''type'', PStr ''energy_spike''), (''building_id'', PStr ''HQ-01''),
      (''severity'', PStr ''high''), (''metric'', PStr ''+25%'')]"

text \<open>A state as the Governor finds it after the Architect.\<close>

definition governor_state :: EcoVerifyState where
  "governor_state =
     initial_state\<lparr>anomalies := Some [example_anomaly],
                   compliance_report := Some (PDict [(''status'', PStr ''compliant'')]),
                   simulation_result := Some (PDict [(''monthly_savings_usd'', PFloat 1200),
                                                     (''roi_adjustment'', PFloat 1)])\<rparr>"

text \<open>Telemetry summaries, and a runtime whose arithmetic is exact and whose \<open>round\<close>
  rounds to the nearest multiple of \<open>10 ^ -n\<close>.  In \<open>example_energy\<close> the peak is 20.04 percent
  above the mean; in \<open>flat_energy\<close> the peak equals the mean; in \<open>spiking_energy\<close> and
  \<open>spiking_water\<close> the peak is 50 and 100 percent above the mean.\<close>

definition example_energy :: energy_summary where
  "example_energy =
     \<lparr>avg_kwh = 100, peak_kwh = 12004 / 100, energy_anomaly_count = 1, total_kwh = 2400,
      energy_hours_sampled = 24\<rparr>"

definition flat_energy :: energy_summary where
  "flat_energy =
     \<lparr>avg_kwh = 100, peak_kwh = 100, energy_anomaly_count = 1, total_kwh = 2400,
      energy_hours_sampled = 24\<rparr>"

definition example_water :: water_summary where
  "example_water =
     \<lparr>avg_gallons = 300, peak_gallons = 600, water_anomaly_count = 0, total_gallons = 7200,
      water_hours_sampled = 24\<rparr>"

definition spiking_energy :: energy_summary where
  "spiking_energy =
     \<lparr>avg_kwh = 100, peak_kwh = 150, energy_anomaly_count = 3, total_kwh = 2400,
      energy_hours_sampled = 24\<rparr>"

definition spiking_water :: water_summary where
  "spiking_water =
     \<lparr>avg_gallons = 300, peak_gallons = 600, water_anomaly_count = 2, total_gallons = 7200,
      water_hours_sampled = 24\<rparr>"

definition rounding_runtime :: py_runtime where
  "rounding_runtime =
     example_runtime\<lparr>fround := (\<lambda>x n. of_int (round (x * 10 ^ n)) / 10 ^ n)\<rparr>"

text \<open>The two trace dicts of \<open>tests/test_graph.py\<close>.\<close>

definition test_traces :: "pydict list" where
  "test_traces =
     [[(''agent_id'', PStr ''vanguard''),
       (''decision'', PDict [(''action'', PStr ''scan''), (''anomalies_found'', PInt 1)]),
       (''payload_hash'', PStr ''abc123ef'')],
      [(''agent_id'', PStr ''jurist''),
       (''decision'', PDict [(''action'', PStr ''compliance''), (''status'', PStr ''compliant'')]),
       (''payload_hash'', PStr ''def456ab'')]]"

section \<open>Base64: decoding inverts encoding\<close>

lemma index_of_nth: "distinct xs \<Longrightarrow> n < length xs \<Longrightarrow> index_of (xs ! n) xs = Some n"
proof (induction xs arbitrary: n)
  case Nil
  then show ?case by simp
next
  case (Cons y ys)
  show ?case
  proof (cases n)
    case 0
    then show ?thesis by simp
  next
    case (Suc m)
    with Cons.prems have "m < length ys" "distinct ys" "ys ! m \<noteq> y"
      by auto
    with Cons.IH[of m] Suc show ?thesis by simp
  qed
qed

lemma b64_alphabet_length: "length b64_alphabet = 64"
  by (simp add: b64_alphabet_def)

lemma b64_alphabet_distinct: "distinct b64_alphabet"
  by (simp add: b64_alphabet_def)

lemma b64_value_nth: "n < 64 \<Longrightarrow> b64_value (b64_alphabet ! n) = Some n"
  unfolding b64_value_def
  by (rule index_of_nth) (simp_all add: b64_alphabet_distinct b64_alphabet_length)

lemma b64_alphabet_no_pad: "CHR ''='' \<notin> set b64_alphabet"
  by (simp add: b64_alphabet_def)

lemma b64_nth_no_pad: "n < 64 \<Longrightarrow> b64_alphabet ! n \<noteq> CHR ''=''"
  using b64_alphabet_no_pad nth_mem[of n b64_alphabet] by (metis b64_alphabet_length)

lemma b64_alphabet_ascii: "\<forall>c\<in>set b64_alphabet. \<not> (of_char c :: nat) > 127"
  by (simp add: b64_alphabet_def)

lemma a2b_data_char:
  "n < 64 \<Longrightarrow> a2b_base64 (b64_alphabet ! n # rest) q l p out =
     (if q = 0 then a2b_base64 rest 1 n 0 out
      else if q = 1 then a2b_base64 rest 2 (n mod 16) 0 (out @ [of_nat (l * 4 + n div 16)])
      else if q = 2 then a2b_base64 rest 3 (n mod 4) 0 (out @ [of_nat (l * 16 + n div 4)])
      else a2b_base64 rest 0 0 0 (out @ [of_nat (l * 64 + n)]))"
  by (simp add: b64_value_nth b64_nth_no_pad)

lemma a2b_q0: "n < 64 \<Longrightarrow> a2b_base64 (b64_alphabet ! n # rest) 0 l p out = a2b_base64 rest 1 n 0 out"
  by (simp add: a2b_data_char del: a2b_base64.simps)

lemma a2b_q1: "n < 64 \<Longrightarrow> a2b_base64 (b64_alphabet ! n # rest) 1 l p out =
    a2b_base64 rest 2 (n mod 16) 0 (out @ [of_nat (l * 4 + n div 16)])"
  by (simp add: a2b_data_char del: a2b_base64.simps)

lemma a2b_q2: "n < 64 \<Longrightarrow> a2b_base64 (b64_alphabet ! n # rest) 2 l p out =
    a2b_base64 rest 3 (n mod 4) 0 (out @ [of_nat (l * 16 + n div 4)])"
  by (simp add: a2b_data_char del: a2b_base64.simps)

lemma a2b_q3: "n < 64 \<Longrightarrow> a2b_base64 (b64_alphabet ! n # rest) 3 l p out =
    a2b_base64 rest 0 0 0 (out @ [of_nat (l * 64 + n)])"
  by (simp add: a2b_data_char del: a2b_base64.simps)

lemma a2b_pad3: "a2b_base64 (CHR ''='' # rest) 3 l 0 out = Inr out"
  by simp

lemma a2b_pad2: "a2b_base64 (CHR ''='' # CHR ''='' # rest) 2 l 0 out = Inr out"
  by simp

lemma a2b_group3:
  assumes "a < 256" "b < 256" "c < 256"
  shows "a2b_base64 (b64_alphabet ! (a div 4) # b64_alphabet ! (a mod 4 * 16 + b div 16) #
            b64_alphabet ! (b mod 16 * 4 + c div 64) # b64_alphabet ! (c mod 64) # rest) 0 l p out
         = a2b_base64 rest 0 0 0 (out @ [of_nat a, of_nat b, of_nat c])"
proof -
  have 1: "a div 4 < 64" "a mod 4 * 16 + b div 16 < 64" "b mod 16 * 4 + c div 64 < 64" "c mod 64 < 64"
    using assms by auto
  have 2: "a div 4 * 4 + (a mod 4 * 16 + b div 16) div 16 = a"
    using assms by auto
  have 3: "(a mod 4 * 16 + b div 16) mod 16 * 16 + (b mod 16 * 4 + c div 64) div 4 = b"
    using assms by auto
  have 4: "(b mod 16 * 4 + c div 64) mod 4 * 64 + c mod 64 = c"
    using assms by auto
  show ?thesis
    by (simp only: a2b_q0[OF 1(1)] a2b_q1[OF 1(2)] a2b_q2[OF 1(3)] a2b_q3[OF 1(4)] 2 3 4
        append_assoc append.simps)
qed

lemma a2b_group2:
  assumes "a < 256" "b < 256"
  shows "a2b_base64 (b64_alphabet ! (a div 4) # b64_alphabet ! (a mod 4 * 16 + b div 16) #
            b64_alphabet ! (b mod 16 * 4) # CHR ''='' # rest) 0 l p out
         = Inr (out @ [of_nat a, of_nat b])"
proof -
  have 1: "a div 4 < 64" "a mod 4 * 16 + b div 16 < 64" "b mod 16 * 4 < 64"
    using assms by auto
  have 2: "a div 4 * 4 + (a mod 4 * 16 + b div 16) div 16 = a"
    using assms by auto
  have 3: "(a mod 4 * 16 + b div 16) mod 16 * 16 + (b mod 16 * 4) div 4 = b"
    using assms by auto
  show ?thesis
    by (simp only: a2b_q0[OF 1(1)] a2b_q1[OF 1(2)] a2b_q2[OF 1(3)] a2b_pad3 2 3
        append_assoc append.simps)
qed

lemma a2b_group1:
  assumes "a < 256"
  shows "a2b_base64 (b64_alphabet ! (a div 4) # b64_alphabet ! (a mod 4 * 16) #
            CHR ''='' # CHR ''='' # rest) 0 l p out
         = Inr (out @ [of_nat a])"
proof -
  have 1: "a div 4 < 64" "a mod 4 * 16 < 64"
    using assms by auto
  have 2: "a div 4 * 4 + (a mod 4 * 16) div 16 = a"
    using assms by auto
  show ?thesis
    by (simp only: a2b_q0[OF 1(1)] a2b_q1[OF 1(2)] a2b_pad2 2 append_assoc append.simps)
qed

lemma a2b_groups:
  "\<forall>n\<in>set ns. n < 256 \<Longrightarrow> a2b_base64 (b64_groups ns) 0 l p out = Inr (out @ map of_nat ns)"
proof (induction ns arbitrary: l p out rule: b64_groups.induct)
  case (1 a b c rest)
  then show ?case
    by (simp add: a2b_group3 del: a2b_base64.simps)
next
  case (2 a b)
  then show ?case by (simp add: a2b_group2 del: a2b_base64.simps)
next
  case (3 a)
  then show ?case by (simp add: a2b_group1 del: a2b_base64.simps)
next
  case 4
  then show ?case by simp
qed

lemma b64_groups_ascii:
  "\<forall>n\<in>set ns. n < 256 \<Longrightarrow> \<forall>c\<in>set (b64_groups ns). \<not> (of_char c :: nat) > 127"
proof (induction ns rule: b64_groups.induct)
  case (1 a b c rest)
  have *: "\<not> (of_char (b64_alphabet ! n) :: nat) > 127" if "n < 64" for n
    using b64_alphabet_ascii nth_mem[of n b64_alphabet] that by (metis b64_alphabet_length)
  have "a div 4 < 64" "a mod 4 * 16 + b div 16 < 64" "b mod 16 * 4 + c div 64 < 64" "c mod 64 < 64"
    using 1 by auto
  with 1 * show ?case by simp
next
  case (2 a b)
  have *: "\<not> (of_char (b64_alphabet ! n) :: nat) > 127" if "n < 64" for n
    using b64_alphabet_ascii nth_mem[of n b64_alphabet] that by (metis b64_alphabet_length)
  have "a div 4 < 64" "a mod 4 * 16 + b div 16 < 64" "b mod 16 * 4 < 64"
    using 2 by auto
  with * show ?case by simp
next
  case (3 a)
  have *: "\<not> (of_char (b64_alphabet ! n) :: nat) > 127" if "n < 64" for n
    using b64_alphabet_ascii nth_mem[of n b64_alphabet] that by (metis b64_alphabet_length)
  have "a div 4 < 64" "a mod 4 * 16 < 64"
    using 3 by auto
  with * show ?case by simp
next
  case 4
  then show ?case by simp
qed

lemma b64_roundtrip: "b64decode (b64encode bs) = Inr bs"
proof -
  have bound: "\<forall>n\<in>set (map unat bs). n < 256"
  proof
    fix n assume "n \<in> set (map unat bs)"
    then obtain b :: byte where "n = unat b" by auto
    with unsigned_less[of b, where 'a = nat] show "n < 256" by simp
  qed
  have "map (of_nat :: nat \<Rightarrow> byte) (map unat bs) = bs"
    by (simp add: map_idI)
  with a2b_groups[OF bound, of 0 0 "[]"] b64_groups_ascii[OF bound]
  show ?thesis
    by (simp add: b64decode_def b64encode_def list_ex_iff)
qed




section \<open>Sequencing\<close>

lemma ebind_Inr_iff: "ebind m f = Inr y \<longleftrightarrow> (\<exists>x. m = Inr x \<and> f x = Inr y)"
  by (cases m) (simp_all add: ebind_def)

lemma ebind_Inr: "ebind (Inr x) f = f x"
  by (simp add: ebind_def)

lemma ebind_Inl: "ebind (Inl e) f = Inl e"
  by (simp add: ebind_def)

section \<open>Citation presence\<close>

lemma citations_loop_iff: "citations_loop cs \<longleftrightarrow> (\<forall>c\<in>set cs. length (data_hash c) = 64)"
  by (induction cs) auto

text \<open>C7 (as the code has it): \<open>verify_citations_present\<close> returns true exactly when the
  list is non-empty and every citation's \<open>data_hash\<close> is 64 characters long.  The characters
  themselves are not inspected.\<close>

theorem verify_citations_present_iff_length:
  "verify_citations_present cs \<longleftrightarrow> cs \<noteq> [] \<and> (\<forall>c\<in>set cs. length (data_hash c) = 64)"
  by (simp add: verify_citations_present_def citations_loop_iff)

theorem verify_citations_present_iff_length_witness:
  "verify_citations_present
     [\<lparr>source_id = ''src'', data_hash = replicate 64 (CHR ''a''), cb_timestamp = ''t'', snippet = ''''\<rparr>]
   \<and> \<not> verify_citations_present
     [\<lparr>source_id = ''src'', data_hash = ''abc'', cb_timestamp = ''t'', snippet = ''''\<rparr>]"
  using verify_citations_present_iff_length
    [of "[\<lparr>source_id = ''src'', data_hash = replicate 64 (CHR ''a''), cb_timestamp = ''t'', snippet = ''''\<rparr>]"]
    verify_citations_present_iff_length
    [of "[\<lparr>source_id = ''src'', data_hash = ''abc'', cb_timestamp = ''t'', snippet = ''''\<rparr>]"]
  by simp

text \<open>C7 as stated fails: a hash of 64 letters \<open>z\<close> is accepted although it is not
  hexadecimal.\<close>

theorem verify_citations_present_not_hex_counterexample:
  "verify_citations_present
     [\<lparr>source_id = ''src'', data_hash = replicate 64 (CHR ''z''), cb_timestamp = ''t'', snippet = ''''\<rparr>]
   \<and> \<not> spec_hex64 (replicate 64 (CHR ''z''))"
  by (simp add: verify_citations_present_def citations_loop_iff spec_hex64_def spec_hex_char_def
      list_all_iff)

section \<open>Append fields only grow\<close>

lemma apply_update_append_fields:
  "prefix (messages s) (messages (apply_update u s))"
  "prefix (decision_traces s) (decision_traces (apply_update u s))"
  "prefix (settlements s) (settlements (apply_update u s))"
  "prefix (risk_scores s) (risk_scores (apply_update u s))"
  "prefix (fhir_observations s) (fhir_observations (apply_update u s))"
  "prefix (edutech_hints s) (edutech_hints (apply_update u s))"
  "prefix (error_log s) (error_log (apply_update u s))"
  "prefix (ui_events s) (ui_events (apply_update u s))"
  by (cases u; simp)+

text \<open>C8: merging the delta of any step into a state leaves each append field
  (\<open>messages\<close>, \<open>decision_traces\<close>, \<open>settlements\<close>, \<open>risk_scores\<close>, \<open>fhir_observations\<close>,
  \<open>edutech_hints\<close>, \<open>error_log\<close>, \<open>ui_events\<close>) a list that has the list of the pre-state as
  a prefix.  The statement holds for every delta, hence for the delta that any of the five
  step functions returns.\<close>

theorem merge_append_fields_grow:
  "prefix (messages s) (messages (merge s d))
   \<and> prefix (decision_traces s) (decision_traces (merge s d))
   \<and> prefix (settlements s) (settlements (merge s d))
   \<and> prefix (risk_scores s) (risk_scores (merge s d))
   \<and> prefix (fhir_observations s) (fhir_observations (merge s d))
   \<and> prefix (edutech_hints s) (edutech_hints (merge s d))
   \<and> prefix (error_log s) (error_log (merge s d))
   \<and> prefix (ui_events s) (ui_events (merge s d))"
proof (induction d arbitrary: s)
  case Nil
  then show ?case by simp
next
  case (Cons u us)
  from Cons.IH[of "apply_update u s"] apply_update_append_fields[of s u]
  show ?case
    by (auto intro: prefix_order.trans)
qed

theorem merge_append_fields_grow_witness:
  "prefix (error_log initial_state)
     (error_log (merge initial_state [CurrentPhase ''citation_failure'', ErrorLog [''e'']]))
   \<and> error_log (merge initial_state [CurrentPhase ''citation_failure'', ErrorLog [''e'']]) = [''e'']"
  using merge_append_fields_grow[of initial_state "[CurrentPhase ''citation_failure'', ErrorLog [''e'']]"]
  by (simp add: initial_state_def)

section \<open>Signing and verification\<close>

lemma signable_of_sign:
  "signable_of \<lparr>agent_id = a, timestamp = ts, decision = d, payload_hash = h, signature = g\<rparr>
   = [(''agent_id'', PStr a), (''timestamp'', PStr ts), (''decision'', PDict d)]"
  by (simp add: signable_of_def)

lemma sign_decision_trace_Inr:
  assumes "json_dumps rt (PDict [(''agent_id'', PStr a), (''timestamp'', PStr ts),
                   (''decision'', PDict d)]) = Inr c"
  shows "sign_decision_trace rt ts a d sk =
           Inr \<lparr>agent_id = a, timestamp = ts, decision = d,
                payload_hash = sha256_hexdigest rt c, signature = b64encode (sk c)\<rparr>"
  using assms
  by (simp add: sign_decision_trace_def Let_def canonicalise_def signable_of_def ebind_def)


lemma verify_decision_trace_eq:
  assumes "json_dumps rt (PDict (signable_of t)) = Inr c"
  shows "verify_decision_trace rt t pk =
           Inr (sha256_hexdigest rt c = payload_hash t
                \<and> (case b64decode (signature t) of Inl e \<Rightarrow> False | Inr bs \<Rightarrow> pk bs c))"
  using assms
  by (auto simp: verify_decision_trace_def Let_def canonicalise_def ebind_def split: sum.splits)

text \<open>C1: for every agent id, every decision whose signable payload \<open>json.dumps\<close>
  serialises, and every Ed25519 keypair, verifying the trace that \<open>sign_decision_trace\<close>
  returns against the public key returns true.\<close>

theorem sign_then_verify:
  assumes ser: "json_dumps rt (PDict [(''agent_id'', PStr a), (''timestamp'', PStr ts),
                   (''decision'', PDict d)]) = Inr c"
    and kp: "ed25519_keypair sk pk"
  shows "\<exists>t. sign_decision_trace rt ts a d sk = Inr t
             \<and> agent_id t = a \<and> decision t = d
             \<and> verify_decision_trace rt t pk = Inr True"
proof -
  let ?t = "\<lparr>agent_id = a, timestamp = ts, decision = d,
             payload_hash = sha256_hexdigest rt c, signature = b64encode (sk c)\<rparr>"
  have s: "sign_decision_trace rt ts a d sk = Inr ?t"
    by (rule sign_decision_trace_Inr[OF ser])
  have "json_dumps rt (PDict (signable_of ?t)) = Inr c"
    using ser by (simp add: signable_of_def)
  from verify_decision_trace_eq[OF this, of pk] kp
  have "verify_decision_trace rt ?t pk = Inr True"
    by (simp add: b64_roundtrip ed25519_keypair_def)
  with s show ?thesis by simp
qed


lemma example_keypair: "ed25519_keypair example_private_key example_public_key"
  by (simp add: ed25519_keypair_def example_private_key_def example_public_key_def)

theorem sign_then_verify_witness:
  "\<exists>t. sign_decision_trace example_runtime ''2026-01-01T00:00:00+00:00'' ''vanguard''
          [(''action'', PStr ''anomaly_scan'')] example_private_key = Inr t
       \<and> agent_id t = ''vanguard'' \<and> decision t = [(''action'', PStr ''anomaly_scan'')]
       \<and> verify_decision_trace example_runtime t example_public_key = Inr True"
  using sign_then_verify[of example_runtime "''vanguard''" "''2026-01-01T00:00:00+00:00''"
      "[(''action'', PStr ''anomaly_scan'')]" "''vanguard,2026-01-01T00:00:00+00:00,action''"
      example_private_key example_public_key] example_keypair
  by (simp add: example_runtime_def example_dumps_def)

















section \<open>The Jurist's citation gate\<close>

lemma jurist_node_failure:
  assumes "\<not> verify_citations_present (get_or (citations state) [])"
  shows "jurist_node rt env state =
     Inr [CurrentPhase ''citation_failure'',
          ErrorLog [''JURIST: Cite-Before-Act violation '' @ EM_DASH
                    @ '' no valid citations from VANGUARD.''],
          UiEvents [[(''type'', PStr ''neural_feed''),
                     (''agent'', PStr ''JURIST''),
                     (''message'', PStr (WARNING_SIGN @ '' Citation verification FAILED ''
                        @ EM_DASH @ '' routing back to VANGUARD for self-correction.'')),
                     (''severity'', PStr ''high''),
                     (''timestamp'', PStr (now_iso env))]],
          ComplianceReport PNone,
          Messages [AIMessage
            ''[JURIST] Citation verification failed. Requesting VANGUARD re-scan with proper data citations.''
            ''jurist'']]"
  using assms by (simp add: jurist_node_def Let_def)

text \<open>C3: for every state whose citations fail \<open>verify_citations_present\<close>, \<open>jurist_node\<close>
  returns a delta that sets \<open>current_phase\<close> to \<open>citation_failure\<close>, appends exactly one entry
  to \<open>error_log\<close>, appends exactly one UI event (a neural-feed warning of severity high),
  sets \<open>compliance_report\<close> to \<open>None\<close> and has no \<open>decision_traces\<close> entry, so that the
  traces of the state stay as they were.\<close>

theorem jurist_citation_failure:
  assumes "\<not> verify_citations_present (get_or (citations state) [])"
  shows "\<exists>d err ev msg.
           jurist_node rt env state = Inr d
         \<and> d = [CurrentPhase ''citation_failure'', ErrorLog [err], UiEvents [ev],
                ComplianceReport PNone, Messages [msg]]
         \<and> map_of ev ''type'' = Some (PStr ''neural_feed'')
         \<and> map_of ev ''severity'' = Some (PStr ''high'')
         \<and> current_phase (merge state d) = Some ''citation_failure''
         \<and> error_log (merge state d) = error_log state @ [err]
         \<and> ui_events (merge state d) = ui_events state @ [ev]
         \<and> compliance_report (merge state d) = Some PNone
         \<and> decision_traces (merge state d) = decision_traces state"
  by (simp add: jurist_node_failure[OF assms])

theorem jurist_citation_failure_witness:
  "\<exists>d err ev msg.
           jurist_node example_runtime example_environment initial_state = Inr d
         \<and> d = [CurrentPhase ''citation_failure'', ErrorLog [err], UiEvents [ev],
                ComplianceReport PNone, Messages [msg]]
         \<and> map_of ev ''type'' = Some (PStr ''neural_feed'')
         \<and> map_of ev ''severity'' = Some (PStr ''high'')
         \<and> current_phase (merge initial_state d) = Some ''citation_failure''
         \<and> error_log (merge initial_state d) = error_log initial_state @ [err]
         \<and> ui_events (merge initial_state d) = ui_events initial_state @ [ev]
         \<and> compliance_report (merge initial_state d) = Some PNone
         \<and> decision_traces (merge initial_state d) = decision_traces initial_state"
proof -
  have "\<not> verify_citations_present (get_or (citations initial_state) [])"
    by (simp add: initial_state_def get_or_def verify_citations_present_def)
  from jurist_citation_failure[OF this] show ?thesis .
qed


section \<open>Routing after the Jurist\<close>

lemma jurist_node_shapes:
  assumes "jurist_node rt env s = Inr d"
  shows "(\<exists>e ev m. d = [CurrentPhase ''citation_failure'', ErrorLog e, UiEvents ev,
                          ComplianceReport PNone, Messages m])
       \<or> (\<exists>st r ev m. (st = ''compliant'' \<or> st = ''non_compliant'') \<and>
              d = [CurrentPhase ''jurist_complete'',
                   ComplianceReport (PDict ((''status'', PStr st) # r)),
                   UiEvents ev, Messages m])
       \<or> (\<exists>st r tr ev m. (st = ''compliant'' \<or> st = ''non_compliant'') \<and>
              d = [CurrentPhase ''jurist_complete'',
                   ComplianceReport (PDict ((''status'', PStr st) # r)),
                   DecisionTraces tr, UiEvents ev, Messages m])"
proof (cases "verify_citations_present (get_or (citations s) [])")
  case False
  from jurist_node_failure[OF False, of rt env] assms show ?thesis
    by simp
next
  case True
  show ?thesis
  proof (cases "get_or (anomalies s) [] = []")
    case e: True
    with True assms show ?thesis
      by (auto simp add: jurist_node_def Let_def)
  next
    case ne: False
    have st: "(if b then ''compliant'' else ''non_compliant'') = ''compliant''
            \<or> (if b then ''compliant'' else ''non_compliant'') = ''non_compliant''" for b
      by simp
    from assms True ne show ?thesis
      apply (simp only: jurist_node_def Let_def if_True if_False not_not simp_thms ebind_Inr_iff)
      apply (elim exE conjE)
      apply (simp only: sum.inject)
      apply (drule sym)
      apply hypsubst
      apply (rule disjI2, rule disjI2)
      apply (intro exI conjI)
       prefer 2
       apply (rule refl)
      apply (rule st)
      done
  qed
qed

lemma route_after_jurist_eq:
  assumes "current_phase s = Some ''citation_failure'' \<or> (\<exists>r. compliance_report s = Some (PDict r))
           \<or> compliance_report s = None"
  shows "route_after_jurist s =
     Inr (if get_or (current_phase s) [] = ''citation_failure'' then
            (if get_or (iteration_count s) 0 \<ge> 5 then ''__end__'' else ''vanguard'')
          else if spec_compliance_status s = Some (PStr ''non_compliant'') then ''governor''
          else ''architect'')"
  using assms
  by (auto simp: route_after_jurist_def Let_def get_or_def MAX_ITERATIONS_def ebind_def
      spec_compliance_status_def split: option.splits)

text \<open>C4: on every state that results from merging a delta returned by \<open>jurist_node\<close>,
  \<open>route_after_jurist\<close> returns one of \<open>vanguard\<close>, \<open>governor\<close>, \<open>architect\<close>, \<open>__end__\<close>:
  when \<open>current_phase\<close> is \<open>citation_failure\<close> it is \<open>__end__\<close> if \<open>iteration_count\<close> is at least
  5 and \<open>vanguard\<close> otherwise; else it is \<open>governor\<close> if the status of the compliance report
  is \<open>non_compliant\<close>, and \<open>architect\<close> otherwise.\<close>

theorem route_after_jurist_total:
  assumes "jurist_node rt env s = Inr d"
  shows "route_after_jurist (merge s d) =
     Inr (if current_phase (merge s d) = Some ''citation_failure'' then
            (if get_or (iteration_count (merge s d)) 0 \<ge> 5 then ''__end__'' else ''vanguard'')
          else if spec_compliance_status (merge s d) = Some (PStr ''non_compliant'') then ''governor''
          else ''architect'')
     \<and> (\<exists>r. route_after_jurist (merge s d) = Inr r
              \<and> r \<in> {''vanguard'', ''governor'', ''architect'', ''__end__''})"
proof -
  from jurist_node_shapes[OF assms]
  have v: "current_phase (merge s d) = Some ''citation_failure''
        \<or> (\<exists>r. compliance_report (merge s d) = Some (PDict r))"
    by auto
  have p: "current_phase (merge s d) \<noteq> None"
    using jurist_node_shapes[OF assms] by auto
  from v have "current_phase (merge s d) = Some ''citation_failure'' \<or> (\<exists>r. compliance_report (merge s d) = Some (PDict r))
           \<or> compliance_report (merge s d) = None" by blast
  from route_after_jurist_eq[OF this] p show ?thesis
    by (auto simp: get_or_def)
qed

theorem route_after_jurist_total_witness:
  "(\<exists>d. jurist_node example_runtime example_environment initial_state = Inr d
        \<and> route_after_jurist (merge initial_state d) = Inr ''vanguard'')
   \<and> (\<exists>d. jurist_node example_runtime example_environment
              (initial_state\<lparr>citations := Some [example_citation],
                             anomalies := Some [example_anomaly]\<rparr>) = Inr d
        \<and> route_after_jurist
              (merge (initial_state\<lparr>citations := Some [example_citation],
                                    anomalies := Some [example_anomaly]\<rparr>) d) = Inr ''architect'')"
proof -
  let ?s = "initial_state\<lparr>citations := Some [example_citation], anomalies := Some [example_anomaly]\<rparr>"
  have "\<not> verify_citations_present (get_or (citations initial_state) [])"
    by (simp add: initial_state_def get_or_def verify_citations_present_def)
  from jurist_node_failure[OF this, of example_runtime example_environment]
  obtain d1 where d1: "jurist_node example_runtime example_environment initial_state = Inr d1"
    and p1: "current_phase (merge initial_state d1) = Some ''citation_failure''"
      "iteration_count (merge initial_state d1) = Some 0"
    by (simp add: initial_state_def)
  from route_after_jurist_total[OF d1] p1
  have r1: "route_after_jurist (merge initial_state d1) = Inr ''vanguard''"
    by (simp add: get_or_def)
  obtain d2 where d2: "jurist_node example_runtime example_environment ?s = Inr d2"
    and p2: "current_phase (merge ?s d2) = Some ''jurist_complete''"
      "spec_compliance_status (merge ?s d2) = Some (PStr ''compliant'')"
    by (simp add: jurist_node_def initial_state_def example_citation_def example_anomaly_def
        get_or_def verify_citations_present_def example_environment_def example_runtime_def
        example_dumps_def example_private_key_def jurist_finding_def article_sections_def
        agent_key_def sign_decision_trace_def canonicalise_def signable_of_def
        spec_compliance_status_def ebind_def Let_def)
  from route_after_jurist_total[OF d2] p2
  have r2: "route_after_jurist (merge ?s d2) = Inr ''architect''"
    by simp
  from d1 r1 d2 r2 show ?thesis by blast
qed


section \<open>The Governor's command\<close>

lemma governor_node_interrupt_cases:
  assumes "governor_node rt env s None = Inr (Interrupted payload)"
  obtains sim savings_text co2_text status where
    "get_or (simulation_result s) (PDict []) = PDict sim"
    "py_format rt '',.2f'' (get_or (map_of sim ''monthly_savings_usd'') (PInt 0)) = Inr savings_text"
    "py_format rt ''.1f'' (get_or (map_of sim ''co2_tons_saved_annual'') (PInt 0)) = Inr co2_text"
    "py_get (get_or (compliance_report s) (PDict [])) ''status'' (PStr ''unknown'') = Inr status"
  using assms
  by (cases "get_or (simulation_result s) (PDict [])")
    (auto simp: governor_node_def Let_def ebind_Inr_iff)

text \<open>C5: for every state on which \<open>governor_node\<close> reaches its interrupt and every
  human response delivered there, a dict whose \<open>approved\<close> is the boolean \<open>approved\<close> (an
  absent entry counting as false) and whose \<open>roi_adjustment\<close> is \<open>roi\<close> (an absent entry
  counting as 1.0), the node returns a \<open>Command\<close> of exactly one of two shapes, provided
  the governor's key is available, the decision serialises and \<open>roi\<close> is a number that
  \<open>format\<close> accepts.  When \<open>approved\<close> is true: \<open>goto\<close> is \<open>finalize\<close> and the update sets
  \<open>governor_approval\<close> to \<open>True\<close> and \<open>current_phase\<close> to \<open>governor_approved\<close>, leaving
  \<open>simulation_result\<close> as it was.  When \<open>approved\<close> is false: \<open>goto\<close> is \<open>architect\<close> and the
  update sets \<open>governor_approval\<close> to \<open>False\<close>, \<open>current_phase\<close> to \<open>governor_rejected\<close>, and
  \<open>simulation_result\<close> to the previous simulation result with \<open>roi_adjustment\<close> overridden
  by \<open>roi\<close>, the human-supplied value.  In both cases the signed decision records
  \<open>approved\<close> and \<open>roi\<close>.\<close>

theorem governor_node_command:
  assumes reach: "governor_node rt env s None = Inr (Interrupted payload)"
    and key: "agent_key env ''governor'' = Inr sk"
    and resp: "hr = PDict r"
    and appr: "map_of r ''approved'' = Some (PBool approved)
               \<or> (map_of r ''approved'' = None \<and> \<not> approved)"
    and adj: "map_of r ''roi_adjustment'' = Some roi
              \<or> (map_of r ''roi_adjustment'' = None \<and> roi = PFloat 1)"
    and ser: "json_dumps rt (PDict
                [(''agent_id'', PStr ''governor''),
                 (''timestamp'', PStr (trace_timestamp env)),
                 (''decision'', PDict
                    [(''action'', PStr ''human_approval''),
                     (''approved'', PBool approved),
                     (''roi_adjustment'', roi)])]) = Inr canonical"
    and fmt: "py_format rt ''.2f'' roi = Inr roi_text"
  shows "\<exists>c trace. governor_node rt env s (Some hr) = Inr (Returned c)
     \<and> DecisionTraces [trace] \<in> set (update c)
     \<and> map_of trace ''agent_id'' = Some (PStr ''governor'')
     \<and> map_of trace ''decision'' =
           Some (PDict [(''action'', PStr ''human_approval''),
                        (''approved'', PBool approved),
                        (''roi_adjustment'', roi)])
     \<and> (if approved then
            goto c = ''finalize''
          \<and> GovernorApproval (PBool True) \<in> set (update c)
          \<and> CurrentPhase ''governor_approved'' \<in> set (update c)
          \<and> governor_approval (merge s (update c)) = Some (PBool True)
          \<and> current_phase (merge s (update c)) = Some ''governor_approved''
          \<and> simulation_result (merge s (update c)) = simulation_result s
         else
            goto c = ''architect''
          \<and> GovernorApproval (PBool False) \<in> set (update c)
          \<and> CurrentPhase ''governor_rejected'' \<in> set (update c)
          \<and> governor_approval (merge s (update c)) = Some (PBool False)
          \<and> current_phase (merge s (update c)) = Some ''governor_rejected''
          \<and> (\<exists>sim. get_or (simulation_result s) (PDict []) = PDict sim
                \<and> SimulationResult (PDict (AList.update ''roi_adjustment'' roi sim))
                   \<in> set (update c)
                \<and> simulation_result (merge s (update c)) =
                    Some (PDict (AList.update ''roi_adjustment'' roi sim))))"
proof -
  from reach obtain sim savings_text co2_text status where
    a: "get_or (simulation_result s) (PDict []) = PDict sim"
      "py_format rt '',.2f'' (get_or (map_of sim ''monthly_savings_usd'') (PInt 0)) = Inr savings_text"
      "py_format rt ''.1f'' (get_or (map_of sim ''co2_tons_saved_annual'') (PInt 0)) = Inr co2_text"
      "py_get (get_or (compliance_report s) (PDict [])) ''status'' (PStr ''unknown'') = Inr status"
    by (rule governor_node_interrupt_cases)
  have h: "human_approved hr = PBool approved" "human_roi_adjustment hr = roi"
    using resp appr adj
    by (auto simp: human_approved_def human_roi_adjustment_def get_or_def)
  note sg = sign_decision_trace_Inr[OF ser, of sk]
  show ?thesis
  proof (cases approved)
    case True
    with a key sg h show ?thesis
      by (simp add: governor_node_def Let_def ebind_Inr model_dump_def)
  next
    case False
    with a key sg fmt h show ?thesis
      by (simp add: governor_node_def Let_def ebind_Inr model_dump_def)
  qed
qed

theorem governor_node_command_witness:
  "(\<exists>c. governor_node example_runtime example_environment governor_state
            (Some (PDict [(''approved'', PBool True), (''roi_adjustment'', PFloat (11 / 10))]))
          = Inr (Returned c)
        \<and> goto c = ''finalize''
        \<and> governor_approval (merge governor_state (update c)) = Some (PBool True)
        \<and> current_phase (merge governor_state (update c)) = Some ''governor_approved'')
   \<and> (\<exists>c. governor_node example_runtime example_environment governor_state
            (Some (PDict [(''approved'', PBool False), (''roi_adjustment'', PFloat (7 / 10))]))
          = Inr (Returned c)
        \<and> goto c = ''architect''
        \<and> governor_approval (merge governor_state (update c)) = Some (PBool False)
        \<and> current_phase (merge governor_state (update c)) = Some ''governor_rejected''
        \<and> simulation_result (merge governor_state (update c)) =
            Some (PDict [(''monthly_savings_usd'', PFloat 1200),
                         (''roi_adjustment'', PFloat (7 / 10))]))
   \<and> (\<exists>c. governor_node example_runtime example_environment governor_state
            (Some (PDict [(''roi_adjustment'', PFloat (13 / 10))]))
          = Inr (Returned c)
        \<and> goto c = ''architect''
        \<and> simulation_result (merge governor_state (update c)) =
            Some (PDict [(''monthly_savings_usd'', PFloat 1200),
                         (''roi_adjustment'', PFloat (13 / 10))]))"
proof -
  have reach: "\<exists>payload. governor_node example_runtime example_environment governor_state None
                 = Inr (Interrupted payload)"
    by (simp add: governor_node_def governor_state_def initial_state_def get_or_def
        example_runtime_def ebind_def Let_def)
  then obtain payload where
    r: "governor_node example_runtime example_environment governor_state None
          = Inr (Interrupted payload)" ..
  have key: "agent_key example_environment ''governor'' = Inr example_private_key"
    by (simp add: agent_key_def example_environment_def)
  have fmt: "py_format example_runtime ''.2f'' v = Inr ''0''" for v
    by (simp add: example_runtime_def)
  have ser: "json_dumps example_runtime (PDict
                [(''agent_id'', PStr ''governor''),
                 (''timestamp'', PStr (trace_timestamp example_environment)),
                 (''decision'', PDict
                    [(''action'', PStr ''human_approval''),
                     (''approved'', PBool b),
                     (''roi_adjustment'', v)])])
             = Inr ''governor,2026-01-01T00:00:01+00:00,actionapprovedroi_adjustment''" for b v
    by (simp add: example_runtime_def example_dumps_def example_environment_def)
  have sim: "get_or (simulation_result governor_state) (PDict []) =
        PDict [(''monthly_savings_usd'', PFloat 1200), (''roi_adjustment'', PFloat 1)]"
    by (simp add: governor_state_def initial_state_def get_or_def)
  have A: "\<exists>c. governor_node example_runtime example_environment governor_state
            (Some (PDict [(''approved'', PBool True), (''roi_adjustment'', PFloat (11 / 10))]))
          = Inr (Returned c)
        \<and> goto c = ''finalize''
        \<and> governor_approval (merge governor_state (update c)) = Some (PBool True)
        \<and> current_phase (merge governor_state (update c)) = Some ''governor_approved''"
    using governor_node_command[OF r key refl _ _ ser fmt,
        of "[(''approved'', PBool True), (''roi_adjustment'', PFloat (11 / 10))]" True
           "PFloat (11 / 10)"]
    by auto
  have B: "\<exists>c. governor_node example_runtime example_environment governor_state
            (Some (PDict [(''approved'', PBool False), (''roi_adjustment'', PFloat (7 / 10))]))
          = Inr (Returned c)
        \<and> goto c = ''architect''
        \<and> governor_approval (merge governor_state (update c)) = Some (PBool False)
        \<and> current_phase (merge governor_state (update c)) = Some ''governor_rejected''
        \<and> simulation_result (merge governor_state (update c)) =
            Some (PDict [(''monthly_savings_usd'', PFloat 1200),
                         (''roi_adjustment'', PFloat (7 / 10))])"
    using governor_node_command[OF r key refl _ _ ser fmt,
        of "[(''approved'', PBool False), (''roi_adjustment'', PFloat (7 / 10))]" False
           "PFloat (7 / 10)"] sim
    by auto
  have C: "\<exists>c. governor_node example_runtime example_environment governor_state
            (Some (PDict [(''roi_adjustment'', PFloat (13 / 10))]))
          = Inr (Returned c)
        \<and> goto c = ''architect''
        \<and> simulation_result (merge governor_state (update c)) =
            Some (PDict [(''monthly_savings_usd'', PFloat 1200),
                         (''roi_adjustment'', PFloat (13 / 10))])"
    using governor_node_command[OF r key refl _ _ ser fmt,
        of "[(''roi_adjustment'', PFloat (13 / 10))]" False "PFloat (13 / 10)"] sim
    by auto
  from A B C show ?thesis by blast
qed

text \<open>On the initial state, whose \<open>simulation_result\<close> is \<open>None\<close>, the node raises before
  it reaches the interrupt, whatever the response.\<close>

lemma governor_node_raises_without_simulation:
  "governor_node rt env initial_state resume = Inl AttributeError"
  by (simp add: governor_node_def initial_state_def get_or_def Let_def)


section \<open>The Detector's anomalies\<close>

text \<open>C6 (as the code has it): the Detector emits an \<open>energy_spike\<close> anomaly exactly when
  the energy summary's \<open>anomaly_count\<close> is positive, and a \<open>water_spike\<close> anomaly exactly when
  the water summary's is; it emits no other type.  The severity of an emitted anomaly is
  \<open>high\<close> if and only if the percentage \<open>round((peak - avg) / max(avg, 1) * 100, 1)\<close>,
  computed from the peak and the mean of that summary, exceeds 20 for energy (25 for
  water), and \<open>medium\<close> otherwise.\<close>

theorem vanguard_anomalies_emitted:
  "(energy_anomaly_count e > 0 \<longrightarrow>
      (\<exists>a. anomaly_of_type ''energy_spike'' (vanguard_anomalies rt b now e w) = Some a
         \<and> map_of a ''severity'' =
             Some (PStr (if fround rt (fmul rt (fdiv rt (fsub rt (peak_kwh e) (avg_kwh e))
                                                  (max (avg_kwh e) 1)) 100) 1 > 20
                         then ''high'' else ''medium''))))
   \<and> (\<not> energy_anomaly_count e > 0 \<longrightarrow>
        anomaly_of_type ''energy_spike'' (vanguard_anomalies rt b now e w) = None)
   \<and> (water_anomaly_count w > 0 \<longrightarrow>
      (\<exists>a. anomaly_of_type ''water_spike'' (vanguard_anomalies rt b now e w) = Some a
         \<and> map_of a ''severity'' =
             Some (PStr (if fround rt (fmul rt (fdiv rt (fsub rt (peak_gallons w) (avg_gallons w))
                                                  (max (avg_gallons w) 1)) 100) 1 > 25
                         then ''high'' else ''medium''))))
   \<and> (\<not> water_anomaly_count w > 0 \<longrightarrow>
        anomaly_of_type ''water_spike'' (vanguard_anomalies rt b now e w) = None)
   \<and> (\<forall>a\<in>set (vanguard_anomalies rt b now e w).
        map_of a ''type'' = Some (PStr ''energy_spike'') \<or> map_of a ''type'' = Some (PStr ''water_spike''))"
  by (simp add: vanguard_anomalies_def anomaly_of_type_def pct_above_def Let_def)

lemma rounding_runtime_ops:
  "fsub rounding_runtime x y = x - y"
  "fdiv rounding_runtime x y = x / y"
  "fmul rounding_runtime x y = x * y"
  "fround rounding_runtime x n = of_int (round (x * 10 ^ n)) / 10 ^ n"
  by (simp_all add: rounding_runtime_def example_runtime_def)

theorem vanguard_anomalies_emitted_witness:
  "(\<exists>a. anomaly_of_type ''energy_spike''
          (vanguard_anomalies rounding_runtime ''HQ-01'' ''2026-01-01T00:00:00+00:00''
             example_energy example_water) = Some a
       \<and> map_of a ''severity'' = Some (PStr ''medium''))
   \<and> anomaly_of_type ''water_spike''
          (vanguard_anomalies rounding_runtime ''HQ-01'' ''2026-01-01T00:00:00+00:00''
             example_energy example_water) = None
   \<and> (\<exists>a. anomaly_of_type ''energy_spike''
          (vanguard_anomalies rounding_runtime ''HQ-01'' ''2026-01-01T00:00:00+00:00''
             spiking_energy spiking_water) = Some a
       \<and> map_of a ''severity'' = Some (PStr ''high''))
   \<and> (\<exists>a. anomaly_of_type ''water_spike''
          (vanguard_anomalies rounding_runtime ''HQ-01'' ''2026-01-01T00:00:00+00:00''
             spiking_energy spiking_water) = Some a
       \<and> map_of a ''severity'' = Some (PStr ''high''))"
  using vanguard_anomalies_emitted[of example_energy rounding_runtime "''HQ-01''"
      "''2026-01-01T00:00:00+00:00''" example_water]
    vanguard_anomalies_emitted[of spiking_energy rounding_runtime "''HQ-01''"
      "''2026-01-01T00:00:00+00:00''" spiking_water]
  by (simp add: example_energy_def example_water_def spiking_energy_def spiking_water_def
      rounding_runtime_ops round_def floor_eq_iff)

text \<open>C6 as stated fails.  With a mean of 100.00 and a peak of 120.04 the excess over the
  mean is above 20 percent and the severity is \<open>medium\<close>, because the percentage is rounded
  to 20.0 before it is compared; and with a peak equal to the mean and a positive
  \<open>anomaly_count\<close> an anomaly is emitted although the peak does not exceed the mean.\<close>

theorem vanguard_severity_counterexample:
  "(\<exists>a. anomaly_of_type ''energy_spike''
          (vanguard_anomalies rounding_runtime ''HQ-01'' ''2026-01-01T00:00:00+00:00''
             example_energy example_water) = Some a
       \<and> map_of a ''severity'' = Some (PStr ''medium''))
   \<and> (peak_kwh example_energy - avg_kwh example_energy) / avg_kwh example_energy > 20 / 100
   \<and> anomaly_of_type ''energy_spike''
          (vanguard_anomalies rounding_runtime ''HQ-01'' ''2026-01-01T00:00:00+00:00''
             flat_energy example_water) \<noteq> None
   \<and> \<not> peak_kwh flat_energy > avg_kwh flat_energy"
  by (simp add: vanguard_anomalies_def anomaly_of_type_def pct_above_def Let_def
      example_energy_def example_water_def flat_energy_def rounding_runtime_ops round_def
      floor_eq_iff)

section \<open>The proof graph\<close>

lemma mermaid_round_dumped:
  assumes "dumped_trace rt t"
  shows "\<exists>body. mermaid_round rt i prev t =
           Inr ([node_text (trace_node_id rt i t) (shape_of (trace_agent i t)) body,
                 edge_text prev (take 8 (trace_hash t)) (trace_node_id rt i t)],
                trace_node_id rt i t)"
proof -
  from assms have
    c1: "case map_of t ''agent_id'' of None \<Rightarrow> True | Some (PStr a) \<Rightarrow> True | Some _ \<Rightarrow> False"
    and c2: "case map_of t ''decision'' of
            None \<Rightarrow> True
          | Some (PDict dd) \<Rightarrow>
              (case map_of dd ''monthly_savings'' of
                 None \<Rightarrow> True
               | Some v \<Rightarrow> (case py_format rt '',.0f'' v of Inr t \<Rightarrow> True | Inl e \<Rightarrow> False))
          | Some _ \<Rightarrow> False"
    and c3: "case map_of t ''payload_hash'' of None \<Rightarrow> True | Some (PStr h) \<Rightarrow> True | Some _ \<Rightarrow> False"
    by (simp_all add: dumped_trace_def)
  from c1 obtain a where a: "trace_agent i t = PStr a"
    by (simp add: trace_agent_def get_or_def split: option.splits pyval.splits)
  have "\<exists>dd. get_or (map_of t ''decision'') (PDict []) = PDict dd
          \<and> (case map_of dd ''monthly_savings'' of
                 None \<Rightarrow> True
               | Some v \<Rightarrow> (case py_format rt '',.0f'' v of Inr t \<Rightarrow> True | Inl e \<Rightarrow> False))"
  proof (cases "map_of t ''decision''")
    case None
    then show ?thesis by (simp add: get_or_def)
  next
    case (Some v)
    with c2 show ?thesis by (cases v) (simp_all add: get_or_def)
  qed
  then obtain dd where dd: "get_or (map_of t ''decision'') (PDict []) = PDict dd"
    and ms: "case map_of dd ''monthly_savings'' of
                 None \<Rightarrow> True
               | Some v \<Rightarrow> (case py_format rt '',.0f'' v of Inr t \<Rightarrow> True | Inl e \<Rightarrow> False)"
    by blast
  from ms have "\<exists>extra. mermaid_extra rt dd = Inr extra"
    by (auto simp: mermaid_extra_def ebind_def split: option.splits sum.splits)
  then obtain extra where ex: "mermaid_extra rt dd = Inr extra" ..
  from c3 have sg: "sig_short_of rt t = Inr (take 8 (trace_hash t))"
    by (simp add: get_or_def sig_short_of_def trace_hash_def split: option.splits pyval.splits)
  show ?thesis
    by (auto simp add: mermaid_round_def Let_def a dd ex sg ebind_def)
qed

lemma mermaid_loop_dumped:
  assumes "list_all (dumped_trace rt) ts"
  shows "\<exists>new. mermaid_loop rt i lines prev ts =
             Inr (lines @ new,
                  if ts = [] then prev else trace_node_id rt (i + length ts - 1) (last ts))
         \<and> length new = 2 * length ts
         \<and> (\<forall>k<length ts.
               (\<exists>body. new ! (2 * k) = node_text (trace_node_id rt (i + k) (ts ! k))
                                          (shape_of (trace_agent (i + k) (ts ! k))) body)
             \<and> new ! (2 * k + 1) =
                 edge_text (if k = 0 then prev else trace_node_id rt (i + k - 1) (ts ! (k - 1)))
                   (take 8 (trace_hash (ts ! k))) (trace_node_id rt (i + k) (ts ! k)))"
  using assms
proof (induction ts arbitrary: i lines prev)
  case Nil
  then show ?case by simp
next
  case (Cons t rest)
  from Cons.prems have t: "dumped_trace rt t" and rest: "list_all (dumped_trace rt) rest"
    by simp_all
  from mermaid_round_dumped[OF t, of i prev] obtain body where
    r: "mermaid_round rt i prev t =
           Inr ([node_text (trace_node_id rt i t) (shape_of (trace_agent i t)) body,
                 edge_text prev (take 8 (trace_hash t)) (trace_node_id rt i t)],
                trace_node_id rt i t)" ..
  let ?n0 = "node_text (trace_node_id rt i t) (shape_of (trace_agent i t)) body"
  let ?e0 = "edge_text prev (take 8 (trace_hash t)) (trace_node_id rt i t)"
  from Cons.IH[OF rest, of "Suc i" "lines @ [?n0, ?e0]" "trace_node_id rt i t"]
  obtain new' where
    l: "mermaid_loop rt (Suc i) (lines @ [?n0, ?e0]) (trace_node_id rt i t) rest =
          Inr ((lines @ [?n0, ?e0]) @ new',
               if rest = [] then trace_node_id rt i t
               else trace_node_id rt (Suc i + length rest - 1) (last rest))"
    and len: "length new' = 2 * length rest"
    and nth: "\<forall>k<length rest.
               (\<exists>body. new' ! (2 * k) = node_text (trace_node_id rt (Suc i + k) (rest ! k))
                                          (shape_of (trace_agent (Suc i + k) (rest ! k))) body)
             \<and> new' ! (2 * k + 1) =
                 edge_text (if k = 0 then trace_node_id rt i t
                            else trace_node_id rt (Suc i + k - 1) (rest ! (k - 1)))
                   (take 8 (trace_hash (rest ! k))) (trace_node_id rt (Suc i + k) (rest ! k))"
    by blast
  let ?new = "[?n0, ?e0] @ new'"
  have 1: "mermaid_loop rt i lines prev (t # rest) =
             Inr (lines @ ?new,
                  if t # rest = [] then prev
                  else trace_node_id rt (i + length (t # rest) - 1) (last (t # rest)))"
    using r l by (simp add: ebind_def)
  have 2: "length ?new = 2 * length (t # rest)"
    using len by simp
  have 3: "(\<exists>body. ?new ! (2 * k) = node_text (trace_node_id rt (i + k) ((t # rest) ! k))
                                          (shape_of (trace_agent (i + k) ((t # rest) ! k))) body)
             \<and> ?new ! (2 * k + 1) =
                 edge_text (if k = 0 then prev
                            else trace_node_id rt (i + k - 1) ((t # rest) ! (k - 1)))
                   (take 8 (trace_hash ((t # rest) ! k))) (trace_node_id rt (i + k) ((t # rest) ! k))"
    if k: "k < length (t # rest)" for k
  proof (cases k)
    case 0
    then show ?thesis by auto
  next
    case (Suc k')
    with k have k': "k' < length rest" by simp
    from nth k' have
      a: "\<exists>body. new' ! (2 * k') = node_text (trace_node_id rt (Suc i + k') (rest ! k'))
                                          (shape_of (trace_agent (Suc i + k') (rest ! k'))) body"
      and b: "new' ! (2 * k' + 1) =
                 edge_text (if k' = 0 then trace_node_id rt i t
                            else trace_node_id rt (Suc i + k' - 1) (rest ! (k' - 1)))
                   (take 8 (trace_hash (rest ! k'))) (trace_node_id rt (Suc i + k') (rest ! k'))"
      by blast+
    have i1: "?new ! (2 * k) = new' ! (2 * k')" using Suc by simp
    have i2: "?new ! (2 * k + 1) = new' ! (2 * k' + 1)" using Suc by simp
    have p: "(if k = 0 then prev else trace_node_id rt (i + k - 1) ((t # rest) ! (k - 1)))
           = (if k' = 0 then trace_node_id rt i t
              else trace_node_id rt (Suc i + k' - 1) (rest ! (k' - 1)))"
      using Suc by (cases k') simp_all
    from a b show ?thesis
      unfolding i1 i2 p using Suc by simp
  qed
  from 1 2 3 show ?case by blast
qed

lemma mermaid_classes_appends:
  "\<exists>cls. mermaid_classes rt i lines ts = lines @ cls
         \<and> (\<forall>l\<in>set cls. prefix ''    class'' l)"
proof (induction ts arbitrary: i lines)
  case Nil
  then show ?case by simp
next
  case (Cons t rest)
  show ?case
  proof (cases "trace_agent i t \<in> set [PStr ''vanguard'', PStr ''jurist'', PStr ''architect'', PStr ''governor'']")
    case True
    from Cons.IH[of "Suc i" "lines @ [''    class '' @ trace_node_id rt i t @ '' '' @ fstr rt (trace_agent i t)]"]
    obtain cls where "mermaid_classes rt (Suc i)
        (lines @ [''    class '' @ trace_node_id rt i t @ '' '' @ fstr rt (trace_agent i t)]) rest
        = (lines @ [''    class '' @ trace_node_id rt i t @ '' '' @ fstr rt (trace_agent i t)]) @ cls"
      and "\<forall>l\<in>set cls. prefix ''    class'' l"
      by blast
    with True show ?thesis
      by (intro exI[of _ "[''    class '' @ trace_node_id rt i t @ '' '' @ fstr rt (trace_agent i t)] @ cls"])
         (simp add: Let_def)
  next
    case False
    from Cons.IH[of "Suc i" lines] False show ?thesis
      by (simp add: Let_def)
  qed
qed

lemma nth_after_header:
  "([a, b] @ new @ rest) ! (2 + m) = (if m < length new then new ! m else rest ! (m - length new))"
  by (simp add: nth_append)

lemma shape_of_roles:
  "shape_of (PStr ''vanguard'') = (''(['', ''])'')"
  "shape_of (PStr ''jurist'') = (''['', '']'')"
  "shape_of (PStr ''architect'') = (''['', '']'')"
  "shape_of (PStr ''governor'') = (''{'', ''}'')"
  by (simp_all add: shape_of_def)

text \<open>C9 (as the code has it): for every chain of trace dicts typed as dumped decision
  traces, the builder returns a diagram whose lines are: the header \<open>graph TD\<close>; the
  synthetic START node; then for each trace, in order, one node line, whose brackets are
  \<open>([\<close> \<open>])\<close> for the agent \<open>vanguard\<close>, \<open>{\<close> \<open>}\<close> for \<open>governor\<close> and \<open>[\<close> \<open>]\<close> for every other
  agent (so for \<open>jurist\<close> and \<open>architect\<close>), followed by one edge line that leads from the
  node before (START for the first trace) into this node and is labelled \<open>sig:\<close> with the
  first 8 characters of this trace's \<open>payload_hash\<close>; then one unlabelled edge from the last
  node (from START when the chain is empty) into the synthetic END node; and after it
  only an empty line and \<open>classDef\<close> and \<open>class\<close> styling lines.\<close>

theorem proof_graph_structure:
  assumes "list_all (dumped_trace rt) ts"
  shows "\<exists>ls. mermaid_lines rt ts = Inr ls
     \<and> build_mermaid_graph rt ts anomalies' = Inr (join_lines ls)
     \<and> ls ! 0 = ''graph TD'' \<and> ls ! 1 = START_NODE
     \<and> (\<forall>i<length ts.
           (\<exists>body. ls ! (2 + 2 * i) =
              node_text (trace_node_id rt i (ts ! i)) (shape_of (trace_agent i (ts ! i))) body)
         \<and> ls ! (2 + (2 * i + 1)) =
              edge_text (chain_prev rt ts i) (take 8 (trace_hash (ts ! i)))
                (trace_node_id rt i (ts ! i)))
     \<and> ls ! (2 + 2 * length ts) = end_text (chain_prev rt ts (length ts))
     \<and> (\<forall>j. 2 + 2 * length ts < j \<and> j < length ls \<longrightarrow>
            ls ! j = [] \<or> prefix ''    class'' (ls ! j))
     \<and> shape_of (PStr ''vanguard'') = (''(['', ''])'')
     \<and> shape_of (PStr ''jurist'') = (''['', '']'')
     \<and> shape_of (PStr ''architect'') = (''['', '']'')
     \<and> shape_of (PStr ''governor'') = (''{'', ''}'')"
proof -
  let ?hdr = "[''graph TD'', START_NODE]"
  let ?final = "if ts = [] then ''START'' else trace_node_id rt (0 + length ts - 1) (last ts)"
  let ?style = "[[],
               ''    classDef vanguard fill:#1e40af,stroke:#3b82f6,color:#fff'',
               ''    classDef jurist fill:#6b21a8,stroke:#a855f7,color:#fff'',
               ''    classDef architect fill:#065f46,stroke:#10b981,color:#fff'',
               ''    classDef governor fill:#92400e,stroke:#f59e0b,color:#fff'']"
  from mermaid_loop_dumped[OF assms, of 0 ?hdr "''START''"] obtain new where
    loop: "mermaid_loop rt 0 ?hdr ''START'' ts = Inr (?hdr @ new, ?final)"
    and len: "length new = 2 * length ts"
    and nth: "\<forall>k<length ts.
               (\<exists>body. new ! (2 * k) = node_text (trace_node_id rt (0 + k) (ts ! k))
                                          (shape_of (trace_agent (0 + k) (ts ! k))) body)
             \<and> new ! (2 * k + 1) =
                 edge_text (if k = 0 then ''START'' else trace_node_id rt (0 + k - 1) (ts ! (k - 1)))
                   (take 8 (trace_hash (ts ! k))) (trace_node_id rt (0 + k) (ts ! k))"
    by blast
  from mermaid_classes_appends[of rt 0 "(?hdr @ new) @ [end_text ?final] @ ?style" ts]
  obtain cls where
    cls: "mermaid_classes rt 0 ((?hdr @ new) @ [end_text ?final] @ ?style) ts
            = ((?hdr @ new) @ [end_text ?final] @ ?style) @ cls"
    and pre: "\<forall>l\<in>set cls. prefix ''    class'' l"
    by blast
  let ?rest = "[end_text ?final] @ ?style @ cls"
  let ?ls = "?hdr @ new @ ?rest"
  have lines: "mermaid_lines rt ts = Inr ?ls"
    using loop cls by (simp add: mermaid_lines_def Let_def ebind_def)
  have build: "build_mermaid_graph rt ts anomalies' = Inr (join_lines ?ls)"
    using lines by (simp add: build_mermaid_graph_def ebind_def)
  have fin: "?final = chain_prev rt ts (length ts)"
    by (cases ts rule: rev_cases) (simp_all add: chain_prev_def)
  have at: "?ls ! (2 + m) = (if m < length new then new ! m else ?rest ! (m - length new))" for m
    by (rule nth_after_header)
  have nodes: "(\<exists>body. ?ls ! (2 + 2 * i) =
              node_text (trace_node_id rt i (ts ! i)) (shape_of (trace_agent i (ts ! i))) body)
         \<and> ?ls ! (2 + (2 * i + 1)) =
              edge_text (chain_prev rt ts i) (take 8 (trace_hash (ts ! i)))
                (trace_node_id rt i (ts ! i))" if "i < length ts" for i
  proof -
    from that len have b: "2 * i < length new" "2 * i + 1 < length new" by simp_all
    from nth that have
      n: "\<exists>body. new ! (2 * i) = node_text (trace_node_id rt (0 + i) (ts ! i))
                                          (shape_of (trace_agent (0 + i) (ts ! i))) body"
      and e: "new ! (2 * i + 1) =
                 edge_text (if i = 0 then ''START'' else trace_node_id rt (0 + i - 1) (ts ! (i - 1)))
                   (take 8 (trace_hash (ts ! i))) (trace_node_id rt (0 + i) (ts ! i))"
      by blast+
    from n e show ?thesis
      unfolding at using b by (simp add: chain_prev_def)
  qed
  have endl: "?ls ! (2 + 2 * length ts) = end_text (chain_prev rt ts (length ts))"
    unfolding at using len fin by simp
  have tail: "?ls ! j = [] \<or> prefix ''    class'' (?ls ! j)"
    if "2 + 2 * length ts < j \<and> j < length ?ls" for j
  proof -
    define m where "m = j - 2"
    define q where "q = m - length new - 1"
    from that have lo: "2 + 2 * length ts < j" and hi: "j < length ?ls"
      by blast+
    from lo have j: "j = 2 + m"
      unfolding m_def by arith
    from lo have m: "2 * length ts < m"
      unfolding m_def by arith
    from m len have m': "\<not> m < length new"
      by arith
    from m len have mq: "m - length new = Suc q"
      unfolding q_def by arith
    have "length ?ls = 8 + length new + length cls"
      by simp
    with hi j mq have "q < 5 + length cls"
      by arith
    then have ql: "q < length (?style @ cls)"
      by simp
    have "?ls ! j = ?rest ! Suc q"
      unfolding j at using m' mq by simp
    then have eq: "?ls ! j = (?style @ cls) ! q"
      by simp
    have "\<forall>l\<in>set (?style @ cls). l = [] \<or> prefix ''    class'' l"
      using pre by simp
    with nth_mem[OF ql] have "(?style @ cls) ! q = [] \<or> prefix ''    class'' ((?style @ cls) ! q)"
      by blast
    with eq show ?thesis by simp
  qed
  from lines build nodes endl tail shape_of_roles show ?thesis
    by (intro exI[of _ ?ls]) simp
qed

lemma test_traces_dumped: "list_all (dumped_trace example_runtime) test_traces"
  by (simp add: test_traces_def dumped_trace_def)

theorem proof_graph_structure_witness:
  \<open>\<exists>ls. mermaid_lines example_runtime test_traces = Inr ls
     \<and> build_mermaid_graph example_runtime test_traces [example_anomaly] = Inr (join_lines ls)
     \<and> ls ! 0 = ''graph TD''
     \<and> ls ! 3 = ''    START -->|"sig:abc123ef"| vanguard_0''
     \<and> ls ! 5 = ''    vanguard_0 -->|"sig:def456ab"| jurist_1''
     \<and> ls ! 6 = end_text ''jurist_1''\<close>
proof -
  from proof_graph_structure[OF test_traces_dumped, of "[example_anomaly]"]
  obtain ls where
    l: "mermaid_lines example_runtime test_traces = Inr ls"
       "build_mermaid_graph example_runtime test_traces [example_anomaly] = Inr (join_lines ls)"
       "ls ! 0 = ''graph TD''"
    and e: "\<forall>i<length test_traces.
           (\<exists>body. ls ! (2 + 2 * i) =
              node_text (trace_node_id example_runtime i (test_traces ! i))
                (shape_of (trace_agent i (test_traces ! i))) body)
         \<and> ls ! (2 + (2 * i + 1)) =
              edge_text (chain_prev example_runtime test_traces i)
                (take 8 (trace_hash (test_traces ! i)))
                (trace_node_id example_runtime i (test_traces ! i))"
    and f: "ls ! (2 + 2 * length test_traces) =
              end_text (chain_prev example_runtime test_traces (length test_traces))"
    by blast
  have n: "0 < length test_traces" "1 < length test_traces" "length test_traces = 2"
    by (simp_all add: test_traces_def)
  from e n(1) have "ls ! (2 + (2 * 0 + 1)) =
              edge_text (chain_prev example_runtime test_traces 0)
                (take 8 (trace_hash (test_traces ! 0)))
                (trace_node_id example_runtime 0 (test_traces ! 0))"
    by blast
  then have e0: \<open>ls ! 3 = ''    START -->|"sig:abc123ef"| vanguard_0''\<close>
    by (simp add: test_traces_def edge_text_def chain_prev_def trace_hash_def trace_node_id_def
        trace_agent_def get_or_def str_of_nat.simps)
  from e n(2) have "ls ! (2 + (2 * 1 + 1)) =
              edge_text (chain_prev example_runtime test_traces 1)
                (take 8 (trace_hash (test_traces ! 1)))
                (trace_node_id example_runtime 1 (test_traces ! 1))"
    by blast
  then have e1: \<open>ls ! 5 = ''    vanguard_0 -->|"sig:def456ab"| jurist_1''\<close>
    by (simp add: test_traces_def edge_text_def chain_prev_def trace_hash_def trace_node_id_def
        trace_agent_def get_or_def str_of_nat.simps)
  from f n(3) have e2: "ls ! 6 = end_text ''jurist_1''"
    by (simp add: test_traces_def chain_prev_def trace_node_id_def trace_agent_def get_or_def
        str_of_nat.simps)
  from l e0 e1 e2 show ?thesis by blast
qed

text \<open>C9 as stated fails: not every edge is labelled.  On the first trace of the
  repository's test the diagram is the one below; its edge into END carries no
  signature label.\<close>

theorem end_edge_unlabelled_counterexample:
  \<open>mermaid_lines example_runtime [hd test_traces] =
     Inr [''graph TD'',
          START_NODE,
          ''    vanguard_0(["VANGUARD'' @ BACKSLASH_N @ ''scan'' @ BACKSLASH_N @ ''1 anomalie(s)"])'',
          ''    START -->|"sig:abc123ef"| vanguard_0'',
          ''    vanguard_0 --> END(("'' @ CHECK_MARK @ '' Complete"))'',
          [],
          ''    classDef vanguard fill:#1e40af,stroke:#3b82f6,color:#fff'',
          ''    classDef jurist fill:#6b21a8,stroke:#a855f7,color:#fff'',
          ''    classDef architect fill:#065f46,stroke:#10b981,color:#fff'',
          ''    classDef governor fill:#92400e,stroke:#f59e0b,color:#fff'',
          ''    class vanguard_0 vanguard'']
   \<and> spec_is_edge (''    vanguard_0 --> END(("'' @ CHECK_MARK @ '' Complete"))'')
   \<and> \<not> spec_has_sig_label (''    vanguard_0 --> END(("'' @ CHECK_MARK @ '' Complete"))'')\<close>
  by (simp add: mermaid_lines_def mermaid_round_def mermaid_extra_def sig_short_of_def
      test_traces_def trace_agent_def trace_node_id_def shape_of_def node_text_def edge_text_def
      end_text_def get_or_def ebind_def Let_def str_of_nat.simps str_of_int_def
      example_runtime_def example_upper_def spec_is_edge_def spec_has_sig_label_def
      CHECK_MARK_def BACKSLASH_N_def)

text \<open>C10: for every list of decision traces and any two lists of anomalies,
  \<open>_build_mermaid_graph\<close> gives the same result (the same text, or the same exception): the
  diagram depends on the decision traces only.\<close>

theorem proof_graph_ignores_anomalies:
  "build_mermaid_graph rt decision_traces' anomalies1 = build_mermaid_graph rt decision_traces' anomalies2"
  by (simp add: build_mermaid_graph_def)

theorem proof_graph_ignores_anomalies_witness:
  "build_mermaid_graph example_runtime test_traces [example_anomaly]
   = build_mermaid_graph example_runtime test_traces []"
  using proof_graph_ignores_anomalies[of example_runtime test_traces "[example_anomaly]" "[]"]
  by simp


end
